theory Spec2Isabelle
  imports Main "HOL-Library.Sublist" "HOL-Library.Word"
begin

section \<open>Configuration (client.go)\<close>

text \<open>
  \<^verbatim>\<open>type Protocol string\<close> and \<^verbatim>\<open>type ProxyType string\<close> are string types in the
  source: any string is a value of them, and the four protocol names and three proxy
  names are constants.
\<close>

type_synonym Protocol = string

definition UDP :: Protocol where "UDP = ''udp''"
definition TCP :: Protocol where "TCP = ''tcp''"
definition DoT :: Protocol where "DoT = ''dot''"
definition DoH :: Protocol where "DoH = ''doh''"

type_synonym ProxyType = string

definition NoProxy :: ProxyType where "NoProxy = ''''"
definition SOCKS5 :: ProxyType where "SOCKS5 = ''socks5''"
definition HTTPProxy :: ProxyType where "HTTPProxy = ''http''"

record ProxyAuth =
  Username :: string
  Password :: string

text \<open>
  \<^verbatim>\<open>time.Duration\<close> counts nanoseconds. Go's \<^verbatim>\<open>int\<close> and the 64 bits of a
  \<^verbatim>\<open>Duration\<close> are integers here: a retry loop comes to the limits of either only
  after waits that add up to more than the 292 years a \<^verbatim>\<open>Duration\<close> can hold.
  \<^verbatim>\<open>*tls.Config\<close> and \<^verbatim>\<open>*http.Client\<close> are pointers to values of other packages: a
  handle, or \<open>None\<close> for nil.
\<close>

type_synonym Duration = int

definition Millisecond :: Duration where "Millisecond = 1000000"
definition Second :: Duration where "Second = 1000 * Millisecond"

type_synonym tls_Config = nat
type_synonym http_Client = nat

record Config =
  Timeout :: Duration
  Retries :: int
  Protocol :: Protocol
  Servers :: "string list"
  ProxyType :: ProxyType
  ProxyAddr :: string
  ProxyAuth :: "ProxyAuth option"
  TLSConfig :: "tls_Config option"
  HTTPClient :: "http_Client option"

record Client =
  config :: Config

definition DoHServers :: "string list" where
  "DoHServers =
     [''https://dns.alidns.com/dns-query'', ''https://doh.pub/dns-query'',
      ''https://1.12.12.12/dns-query'', ''https://120.53.53.53/dns-query'',
      ''https://1.1.1.1/dns-query'']"

definition DoTServers :: "string list" where
  "DoTServers =
     [''223.5.5.5:853'', ''223.6.6.6:853'', ''1.12.12.12:853'', ''120.53.53.53:853'',
      ''8.8.8.8:853'', ''1.1.1.1:853'']"

definition UDPServers :: "string list" where
  "UDPServers =
     [''223.5.5.5:53'', ''223.6.6.6:53'', ''114.114.114.114:53'', ''114.114.115.115:53'',
      ''1.12.12.12:53'', ''120.53.53.53:53'', ''119.29.29.29:53'', ''182.254.116.116:53'',
      ''8.8.8.8:53'', ''1.1.1.1:53'']"

text \<open>An option is a function that updates the configuration it is given.\<close>

type_synonym Option = "Config \<Rightarrow> Config"

definition WithTimeout :: "Duration \<Rightarrow> Option" where
  "WithTimeout timeout c = c\<lparr>Timeout := timeout\<rparr>"

definition WithRetries :: "int \<Rightarrow> Option" where
  "WithRetries retries c = c\<lparr>Retries := retries\<rparr>"

definition WithProtocol :: "Protocol \<Rightarrow> Option" where
  "WithProtocol protocol c =
     (let c1 = c\<lparr>Protocol := protocol\<rparr>
      in if protocol = DoH then c1\<lparr>Servers := DoHServers\<rparr>
         else if protocol = DoT then c1\<lparr>Servers := DoTServers\<rparr>
         else c1\<lparr>Servers := UDPServers\<rparr>)"

definition WithServers :: "string list \<Rightarrow> Option" where
  "WithServers servers c = c\<lparr>Servers := servers\<rparr>"

definition WithSOCKS5Proxy :: "string \<Rightarrow> ProxyAuth option \<Rightarrow> Option" where
  "WithSOCKS5Proxy addr auth c = c\<lparr>ProxyType := SOCKS5, ProxyAddr := addr, ProxyAuth := auth\<rparr>"

definition WithHTTPProxy :: "string \<Rightarrow> ProxyAuth option \<Rightarrow> Option" where
  "WithHTTPProxy addr auth c = c\<lparr>ProxyType := HTTPProxy, ProxyAddr := addr, ProxyAuth := auth\<rparr>"

definition WithTLSConfig :: "tls_Config option \<Rightarrow> Option" where
  "WithTLSConfig tlsConfig c = c\<lparr>TLSConfig := tlsConfig\<rparr>"

definition WithHTTPClient :: "http_Client option \<Rightarrow> Option" where
  "WithHTTPClient client c = c\<lparr>HTTPClient := client\<rparr>"

text \<open>
  The configuration both constructors start from. The fields the struct literal leaves
  out hold Go's zero values.
\<close>

definition defaultConfig :: Config where
  "defaultConfig =
     \<lparr>Timeout = 5 * Second, Retries = 3, Protocol = UDP, Servers = UDPServers,
      ProxyType = NoProxy, ProxyAddr = '''', ProxyAuth = None, TLSConfig = None,
      HTTPClient = None\<rparr>"

definition NewDefault :: Client where
  "NewDefault = \<lparr>config = defaultConfig\<rparr>"

text \<open>\<^verbatim>\<open>for _, opt := range opts { opt(config) }\<close>: the options run from left to right.\<close>

definition New :: "Option list \<Rightarrow> Client" where
  "New opts = \<lparr>config = foldl (\<lambda>c opt. opt c) defaultConfig opts\<rparr>"

section \<open>Errors, strings and the DNS library's data\<close>

text \<open>
  A Go \<^verbatim>\<open>error\<close> is one of the two errors of package context, or an error that
  carries its message (\<^verbatim>\<open>fmt.Errorf\<close>, and the errors of the network libraries).
\<close>

datatype error = Canceled | DeadlineExceeded | errorString string

fun error_Error :: "error \<Rightarrow> string" where
  "error_Error Canceled = ''context canceled''"
| "error_Error DeadlineExceeded = ''context deadline exceeded''"
| "error_Error (errorString s) = s"

text \<open>\<^verbatim>\<open>fmt.Errorf("<prefix>%v", err)\<close>.\<close>

definition Errorf_v :: "string \<Rightarrow> error \<Rightarrow> error" where
  "Errorf_v pre err = errorString (pre @ error_Error err)"

text \<open>\<^verbatim>\<open>strings.HasPrefix\<close>, \<^verbatim>\<open>strings.Contains\<close> and \<^verbatim>\<open>strings.Join\<close>.\<close>

definition HasPrefix :: "string \<Rightarrow> string \<Rightarrow> bool" where
  "HasPrefix s pre = prefix pre s"

fun Contains :: "string \<Rightarrow> string \<Rightarrow> bool" where
  "Contains [] substr = (substr = [])"
| "Contains (x # xs) substr = (prefix substr (x # xs) \<or> Contains xs substr)"

fun Join :: "string list \<Rightarrow> string \<Rightarrow> string" where
  "Join [] sep = []"
| "Join [x] sep = x"
| "Join (x # y # ys) sep = x @ sep @ Join (y # ys) sep"

text \<open>The verb \<^verbatim>\<open>%d\<close>: an integer in decimal.\<close>

fun utoa :: "nat \<Rightarrow> string" where
  "utoa n = (if n < 10 then [''0123456789'' ! n] else utoa (n div 10) @ [''0123456789'' ! (n mod 10)])"

declare utoa.simps [simp del]

definition itoa :: "int \<Rightarrow> string" where
  "itoa n = (if n < 0 then CHR ''-'' # utoa (nat (- n)) else utoa (nat n))"

text \<open>
  The resource records and messages of the DNS library, as far as this package reads
  them: the header of a record, the record types it tells apart (the address of an A or
  AAAA record as the text \<^verbatim>\<open>String()\<close> gives, and for any other type the text of
  the whole record), and a message with its question and answer sections.
\<close>

record RR_Header =
  Name :: string
  Rrtype :: "16 word"
  Ttl :: "32 word"

datatype RR =
    RR_A RR_Header string
  | RR_AAAA RR_Header string
  | RR_CNAME RR_Header string
  | RR_MX RR_Header "16 word" string
  | RR_TXT RR_Header "string list"
  | RR_other RR_Header string

fun rr_Header :: "RR \<Rightarrow> RR_Header" where
  "rr_Header (RR_A h a) = h"
| "rr_Header (RR_AAAA h a) = h"
| "rr_Header (RR_CNAME h t) = h"
| "rr_Header (RR_MX h p m) = h"
| "rr_Header (RR_TXT h ts) = h"
| "rr_Header (RR_other h s) = h"

record Msg =
  MsgId :: "16 word"
  RecursionDesired :: bool
  Question :: "(string \<times> 16 word) list"
  Answer :: "RR list"

definition TypeA :: "16 word" where "TypeA = 1"
definition TypeAAAA :: "16 word" where "TypeAAAA = 28"
definition TypeCNAME :: "16 word" where "TypeCNAME = 5"
definition TypeMX :: "16 word" where "TypeMX = 15"
definition TypeTXT :: "16 word" where "TypeTXT = 16"

text \<open>
  The values of \<^verbatim>\<open>net/url\<close> and \<^verbatim>\<open>net/http\<close> this package builds and reads: a
  parsed URL, the values of a query string, a request, a response (with what reading its
  body gives), and the HTTP client, which is the configured one or the one
  \<^verbatim>\<open>queryDoH\<close> builds from the TLS settings, the proxy URL and the timeout.
\<close>

type_synonym byte = "8 word"

record URL =
  Scheme :: string
  User :: "(string \<times> string) option"
  Host :: string
  Path :: string
  RawQuery :: string
  Fragment :: string

type_synonym Values = "string \<rightharpoonup> string list"

record Request =
  Method :: string
  RequestURL :: string
  Header :: "string \<rightharpoonup> string list"

record Response =
  StatusCode :: int
  Status :: string
  Body :: "error + byte list"

datatype httpClient =
    ConfiguredClient http_Client
  | BuiltClient "tls_Config option" "URL option" Duration

text \<open>
  \<^verbatim>\<open>base64.RawURLEncoding.EncodeToString\<close>: three bytes give four characters of the
  URL-safe alphabet, a rest of one or two bytes gives two or three, and nothing is
  padded.
\<close>

definition encodeURL :: string where
  "encodeURL = ''ABCDEFGHIJKLMNOPQRSTUVWXYZabcdefghijklmnopqrstuvwxyz0123456789-_''"

fun EncodeToString :: "byte list \<Rightarrow> string" where
  "EncodeToString (a # b # c # src) =
     (let val = unat a * 65536 + unat b * 256 + unat c
      in [encodeURL ! (val div 262144 mod 64), encodeURL ! (val div 4096 mod 64),
          encodeURL ! (val div 64 mod 64), encodeURL ! (val mod 64)] @ EncodeToString src)"
| "EncodeToString [a, b] =
     (let val = unat a * 65536 + unat b * 256
      in [encodeURL ! (val div 262144 mod 64), encodeURL ! (val div 4096 mod 64),
          encodeURL ! (val div 64 mod 64)])"
| "EncodeToString [a] =
     (let val = unat a * 65536
      in [encodeURL ! (val div 262144 mod 64), encodeURL ! (val div 4096 mod 64)])"
| "EncodeToString [] = []"

section \<open>The world of one single-server query\<close>

text \<open>
  What the network, the clock and the libraries answer is not decided by this package.
  One single-server query sees one \<open>env\<close>: for each call it makes to a library, the
  value the call returned. Calls made inside a retry loop are indexed by the loop
  counter. A library function that returns a value and an error returns one of the two
  (\<open>Inl\<close> the error).

  \<^item> \<open>ctx_Done i\<close>: in the backoff wait after attempt \<open>i\<close>, the \<^verbatim>\<open>select\<close> takes
    the branch of \<^verbatim>\<open>ctx.Done()\<close> rather than the timer's; \<open>ctx_Err\<close> is what
    \<^verbatim>\<open>ctx.Err()\<close> returns then.
  \<^item> \<open>ExchangeContext i client msg server\<close>: the DNS library's exchange, for the
    client \<^verbatim>\<open>dns.Client{Net, Timeout, TLSConfig}\<close>.
  \<^item> \<open>proxy_SOCKS5 addr auth\<close>, \<open>Dial i dialer server\<close>, \<open>Handshake i tlsConfig\<close>,
    \<open>WriteMsg i msg\<close>, \<open>ReadMsg i\<close>: the proxy library's dialer, its connection, the
    TLS handshake and the DNS library's connection.
  \<^item> \<open>dns_Fqdn\<close>, \<open>dns_Id\<close>, \<open>Pack\<close>, \<open>Unpack\<close>: the DNS library's fully
    qualified name, message id and wire codec.
  \<^item> \<open>url_Parse\<close>, \<open>url_ParseQuery\<close> (what \<^verbatim>\<open>u.Query()\<close> reads from the raw query),
    \<open>Values_Encode\<close>, \<open>URL_String\<close>: package \<^verbatim>\<open>net/url\<close>.
  \<^item> \<open>NewRequestWithContext i method url\<close> (the error, if any), \<open>Do i client req\<close>:
    package \<^verbatim>\<open>net/http\<close>.
\<close>

type_synonym dns_Client = "string \<times> Duration \<times> tls_Config option"

record Dialer =
  dialer_addr :: string
  dialer_auth :: "ProxyAuth option"

record env =
  ctx_Done :: "nat \<Rightarrow> bool"
  ctx_Err :: error
  ExchangeContext :: "nat \<Rightarrow> dns_Client \<Rightarrow> Msg \<Rightarrow> string \<Rightarrow> error + Msg"
  proxy_SOCKS5 :: "string \<Rightarrow> ProxyAuth option \<Rightarrow> error + Dialer"
  Dial :: "nat \<Rightarrow> Dialer \<Rightarrow> string \<Rightarrow> error option"
  Handshake :: "nat \<Rightarrow> tls_Config \<Rightarrow> error option"
  WriteMsg :: "nat \<Rightarrow> Msg \<Rightarrow> error option"
  ReadMsg :: "nat \<Rightarrow> error + Msg"
  dns_Fqdn :: "string \<Rightarrow> string"
  dns_Id :: "16 word"
  Pack :: "Msg \<Rightarrow> error + byte list"
  Unpack :: "byte list \<Rightarrow> error + Msg"
  url_Parse :: "string \<Rightarrow> error + URL"
  url_ParseQuery :: "string \<Rightarrow> Values"
  Values_Encode :: "Values \<Rightarrow> string"
  URL_String :: "URL \<Rightarrow> string"
  NewRequestWithContext :: "nat \<Rightarrow> string \<Rightarrow> string \<Rightarrow> error option"
  Do :: "nat \<Rightarrow> httpClient \<Rightarrow> Request \<Rightarrow> error + Response"

text \<open>
  What a query does is recorded as a list of events: each run of the retried operation
  (\<open>Attempt i\<close>, in iteration \<open>i\<close> of the loop), each direct exchange with a server,
  each connection dialled through the proxy, each HTTP request sent, and each backoff
  wait, which either runs its full length (\<open>Sleep d\<close>) or is cut short by the context
  (\<open>Cancelled d\<close>).
\<close>

datatype event =
    Attempt int
  | DirectExchange string
  | ProxyDial string
  | HTTPDo Request
  | Sleep Duration
  | Cancelled Duration

type_synonym 'a traced = "event list \<times> 'a"

definition emit :: "event list \<Rightarrow> 'a traced \<Rightarrow> 'a traced" where
  "emit tr r = (tr @ fst r, snd r)"

text \<open>\<^verbatim>\<open>time.Millisecond * 100 * time.Duration(i+1)\<close>.\<close>

definition backoff :: "int \<Rightarrow> Duration" where
  "backoff i = Millisecond * 100 * (i + 1)"

section \<open>Proxy tunnels\<close>

definition createDialer :: "Config \<Rightarrow> env \<Rightarrow> error + Dialer" where
  "createDialer c e =
     (if ProxyType c = SOCKS5 then proxy_SOCKS5 e (ProxyAddr c) (ProxyAuth c)
      else Inl (errorString (''unsupported proxy type for dialer: '' @ ProxyType c)))"

definition getProxyURL :: "Config \<Rightarrow> env \<Rightarrow> error + URL" where
  "getProxyURL c e =
     (if ProxyType c = HTTPProxy then
        (let proxyURL = (if \<not> HasPrefix (ProxyAddr c) ''http'' then ''http://'' @ ProxyAddr c
                         else ProxyAddr c)
         in case url_Parse e proxyURL of
              Inl err \<Rightarrow> Inl err
            | Inr u \<Rightarrow>
                (case ProxyAuth c of
                   None \<Rightarrow> Inr u
                 | Some auth \<Rightarrow> Inr (u\<lparr>User := Some (Username auth, Password auth)\<rparr>)))
      else if ProxyType c = SOCKS5 then
        (case url_Parse e (''socks5://'' @ ProxyAddr c) of
           Inl err \<Rightarrow> Inl err
         | Inr u \<Rightarrow>
             (case ProxyAuth c of
                None \<Rightarrow> Inr u
              | Some auth \<Rightarrow> Inr (u\<lparr>User := Some (Username auth, Password auth)\<rparr>)))
      else Inl (errorString (''unsupported proxy type: '' @ ProxyType c)))"

definition exchangeWithProxy ::
  "Config \<Rightarrow> env \<Rightarrow> nat \<Rightarrow> Msg \<Rightarrow> string \<Rightarrow> (Msg option \<times> error option) traced" where
  "exchangeWithProxy c e i msg server =
     (case createDialer c e of
        Inl err \<Rightarrow> ([], None, Some (Errorf_v ''failed to create proxy dialer: '' err))
      | Inr proxyDialer \<Rightarrow>
          (case Dial e i proxyDialer server of
             Some err \<Rightarrow>
               ([ProxyDial server], None, Some (Errorf_v ''failed to dial through proxy: '' err))
           | None \<Rightarrow>
               (case WriteMsg e i msg of
                  Some err \<Rightarrow>
                    ([ProxyDial server], None,
                     Some (Errorf_v ''failed to write DNS message: '' err))
                | None \<Rightarrow>
                    (case ReadMsg e i of
                       Inl err \<Rightarrow>
                         ([ProxyDial server], None,
                          Some (Errorf_v ''failed to read DNS response: '' err))
                     | Inr response \<Rightarrow> ([ProxyDial server], Some response, None)))))"

definition exchangeDoTWithProxy ::
  "Config \<Rightarrow> env \<Rightarrow> nat \<Rightarrow> Msg \<Rightarrow> string \<Rightarrow> tls_Config
    \<Rightarrow> (Msg option \<times> error option) traced" where
  "exchangeDoTWithProxy c e i msg server tlsConfig =
     (case createDialer c e of
        Inl err \<Rightarrow> ([], None, Some (Errorf_v ''failed to create proxy dialer: '' err))
      | Inr proxyDialer \<Rightarrow>
          (case Dial e i proxyDialer server of
             Some err \<Rightarrow>
               ([ProxyDial server], None, Some (Errorf_v ''failed to dial through proxy: '' err))
           | None \<Rightarrow>
               (case Handshake e i tlsConfig of
                  Some err \<Rightarrow>
                    ([ProxyDial server], None, Some (Errorf_v ''TLS handshake failed: '' err))
                | None \<Rightarrow>
                    (case WriteMsg e i msg of
                       Some err \<Rightarrow>
                         ([ProxyDial server], None,
                          Some (Errorf_v ''failed to write DNS message: '' err))
                     | None \<Rightarrow>
                         (case ReadMsg e i of
                            Inl err \<Rightarrow>
                              ([ProxyDial server], None,
                               Some (Errorf_v ''failed to read DNS response: '' err))
                          | Inr response \<Rightarrow> ([ProxyDial server], Some response, None))))))"

section \<open>UDP/TCP transport with retries\<close>

text \<open>
  One run of the operation the loop of \<^verbatim>\<open>queryUDPTCP\<close> retries: through the proxy
  when one is configured, else the library's exchange.
\<close>

definition udptcp_attempt ::
  "Config \<Rightarrow> env \<Rightarrow> Msg \<Rightarrow> string \<Rightarrow> int \<Rightarrow> (Msg option \<times> error option) traced" where
  "udptcp_attempt c e msg server i =
     (if ProxyType c \<noteq> NoProxy then exchangeWithProxy c e (nat i) msg server
      else
        (case ExchangeContext e (nat i) (Protocol c, Timeout c, None) msg server of
           Inl err \<Rightarrow> ([DirectExchange server], None, Some err)
         | Inr response \<Rightarrow> ([DirectExchange server], Some response, None)))"

text \<open>
  \<^verbatim>\<open>for i := 0; i <= c.config.Retries; i++\<close>, entered at counter \<open>i\<close> with the
  error of the attempt before in \<open>lastErr\<close>.
\<close>

function queryUDPTCP_loop ::
  "Config \<Rightarrow> env \<Rightarrow> Msg \<Rightarrow> string \<Rightarrow> int \<Rightarrow> error option
    \<Rightarrow> (Msg option \<times> error option) traced" where
  "queryUDPTCP_loop c e msg server i lastErr =
     (if i \<le> Retries c then
        (case udptcp_attempt c e msg server i of
           (tr, response, None) \<Rightarrow> (Attempt i # tr, response, None)
         | (tr, response, Some err) \<Rightarrow>
             if i < Retries c then
               (if ctx_Done e (nat i)
                then (Attempt i # tr @ [Cancelled (backoff i)], None, Some (ctx_Err e))
                else emit (Attempt i # tr @ [Sleep (backoff i)])
                       (queryUDPTCP_loop c e msg server (i + 1) (Some err)))
             else emit (Attempt i # tr) (queryUDPTCP_loop c e msg server (i + 1) (Some err)))
      else ([], None, lastErr))"
  by pat_completeness auto
termination
  by (relation "measure (\<lambda>(c, e, msg, server, i, lastErr). nat (Retries c + 1 - i))") auto

declare queryUDPTCP_loop.simps [simp del]

definition queryUDPTCP ::
  "Config \<Rightarrow> env \<Rightarrow> Msg \<Rightarrow> string \<Rightarrow> (Msg option \<times> error option) traced" where
  "queryUDPTCP c e msg server = queryUDPTCP_loop c e msg server 0 None"

section \<open>DNS over TLS\<close>

text \<open>\<^verbatim>\<open>&tls.Config{}\<close>, the settings \<^verbatim>\<open>queryDoT\<close> uses when none are configured.\<close>

definition zero_tls_Config :: tls_Config where
  "zero_tls_Config = 0"

definition dot_attempt ::
  "Config \<Rightarrow> env \<Rightarrow> Msg \<Rightarrow> string \<Rightarrow> tls_Config \<Rightarrow> int
    \<Rightarrow> (Msg option \<times> error option) traced" where
  "dot_attempt c e msg server tlsConfig i =
     (if ProxyType c \<noteq> NoProxy then exchangeDoTWithProxy c e (nat i) msg server tlsConfig
      else
        (case ExchangeContext e (nat i) (''tcp-tls'', Timeout c, Some tlsConfig) msg server of
           Inl err \<Rightarrow> ([DirectExchange server], None, Some err)
         | Inr response \<Rightarrow> ([DirectExchange server], Some response, None)))"

function queryDoT_loop ::
  "Config \<Rightarrow> env \<Rightarrow> Msg \<Rightarrow> string \<Rightarrow> tls_Config \<Rightarrow> int \<Rightarrow> error option
    \<Rightarrow> (Msg option \<times> error option) traced" where
  "queryDoT_loop c e msg server tlsConfig i lastErr =
     (if i \<le> Retries c then
        (case dot_attempt c e msg server tlsConfig i of
           (tr, response, None) \<Rightarrow> (Attempt i # tr, response, None)
         | (tr, response, Some err) \<Rightarrow>
             if i < Retries c then
               (if ctx_Done e (nat i)
                then (Attempt i # tr @ [Cancelled (backoff i)], None, Some (ctx_Err e))
                else emit (Attempt i # tr @ [Sleep (backoff i)])
                       (queryDoT_loop c e msg server tlsConfig (i + 1) (Some err)))
             else emit (Attempt i # tr)
                    (queryDoT_loop c e msg server tlsConfig (i + 1) (Some err)))
      else ([], None, lastErr))"
  by pat_completeness auto
termination
  by (relation "measure (\<lambda>(c, e, msg, server, tlsConfig, i, lastErr). nat (Retries c + 1 - i))")
    auto

declare queryDoT_loop.simps [simp del]

definition queryDoT ::
  "Config \<Rightarrow> env \<Rightarrow> Msg \<Rightarrow> string \<Rightarrow> (Msg option \<times> error option) traced" where
  "queryDoT c e msg server =
     (let tlsConfig = (case TLSConfig c of None \<Rightarrow> zero_tls_Config | Some t \<Rightarrow> t);
          server = (if \<not> Contains server '':'' then server @ '':853'' else server)
      in queryDoT_loop c e msg server tlsConfig 0 None)"

section \<open>DNS over HTTPS\<close>

text \<open>
  The loop of \<^verbatim>\<open>queryDoH\<close>. A request that cannot be sent waits before the next
  attempt; a status other than 200, a body that cannot be read and an answer that cannot
  be unpacked go to the next attempt at once, and after the last attempt leave the loop.
\<close>

function queryDoH_loop ::
  "Config \<Rightarrow> env \<Rightarrow> httpClient \<Rightarrow> string \<Rightarrow> int \<Rightarrow> error option
    \<Rightarrow> (Msg option \<times> error option) traced" where
  "queryDoH_loop c e httpClient url i lastErr =
     (if i \<le> Retries c then
        (case NewRequestWithContext e (nat i) ''GET'' url of
           Some err \<Rightarrow> ([Attempt i], None, Some (Errorf_v ''failed to create HTTP request: '' err))
         | None \<Rightarrow>
             (let req = \<lparr>Method = ''GET'', RequestURL = url,
                        Header = [''Accept'' \<mapsto> [''application/dns-message''],
                                  ''Content-Type'' \<mapsto> [''application/dns-message'']]\<rparr>
              in case Do e (nat i) httpClient req of
                   Inl err \<Rightarrow>
                     if i < Retries c then
                       (if ctx_Done e (nat i)
                        then ([Attempt i, HTTPDo req, Cancelled (backoff i)], None,
                              Some (ctx_Err e))
                        else emit [Attempt i, HTTPDo req, Sleep (backoff i)]
                               (queryDoH_loop c e httpClient url (i + 1) (Some err)))
                     else emit [Attempt i, HTTPDo req]
                            (queryDoH_loop c e httpClient url (i + 1) (Some err))
                 | Inr resp \<Rightarrow>
                     if StatusCode resp \<noteq> 200 then
                       (let lastErr = errorString (''HTTP error: '' @ itoa (StatusCode resp)
                                        @ '' '' @ Status resp)
                        in if i < Retries c
                           then emit [Attempt i, HTTPDo req]
                                  (queryDoH_loop c e httpClient url (i + 1) (Some lastErr))
                           else ([Attempt i, HTTPDo req], None, Some lastErr))
                     else
                       (case Body resp of
                          Inl err \<Rightarrow>
                            (let lastErr = Errorf_v ''failed to read response body: '' err
                             in if i < Retries c
                                then emit [Attempt i, HTTPDo req]
                                       (queryDoH_loop c e httpClient url (i + 1) (Some lastErr))
                                else ([Attempt i, HTTPDo req], None, Some lastErr))
                        | Inr body \<Rightarrow>
                            (case Unpack e body of
                               Inl err \<Rightarrow>
                                 (let lastErr = Errorf_v ''failed to unpack DNS response: '' err
                                  in if i < Retries c
                                     then emit [Attempt i, HTTPDo req]
                                            (queryDoH_loop c e httpClient url (i + 1)
                                               (Some lastErr))
                                     else ([Attempt i, HTTPDo req], None, Some lastErr))
                             | Inr response \<Rightarrow>
                                 ([Attempt i, HTTPDo req], Some response, None)))))
      else ([], None, lastErr))"
  by pat_completeness auto
termination
  by (relation "measure (\<lambda>(c, e, httpClient, url, i, lastErr). nat (Retries c + 1 - i))") auto

declare queryDoH_loop.simps [simp del]

definition queryDoH ::
  "Config \<Rightarrow> env \<Rightarrow> Msg \<Rightarrow> string \<Rightarrow> (Msg option \<times> error option) traced" where
  "queryDoH c e msg server =
     (case Pack e msg of
        Inl err \<Rightarrow> ([], None, Some (Errorf_v ''failed to pack DNS message: '' err))
      | Inr msgBytes \<Rightarrow>
          (let dohURL = (if \<not> HasPrefix server ''http'' then ''https://'' @ server @ ''/dns-query''
                         else server)
           in case url_Parse e dohURL of
                Inl err \<Rightarrow> ([], None, Some (Errorf_v ''invalid DoH URL: '' err))
              | Inr u \<Rightarrow>
                  (let q = url_ParseQuery e (RawQuery u);
                       q = q(''dns'' \<mapsto> [EncodeToString msgBytes]);
                       u = u\<lparr>RawQuery := Values_Encode e q\<rparr>
                   in case HTTPClient c of
                        Some client \<Rightarrow>
                          queryDoH_loop c e (ConfiguredClient client) (URL_String e u) 0 None
                      | None \<Rightarrow>
                          if ProxyType c \<noteq> NoProxy then
                            (case getProxyURL c e of
                               Inl err \<Rightarrow>
                                 ([], None, Some (Errorf_v ''failed to get proxy URL: '' err))
                             | Inr proxyURL \<Rightarrow>
                                 queryDoH_loop c e
                                   (BuiltClient (TLSConfig c) (Some proxyURL) (Timeout c))
                                   (URL_String e u) 0 None)
                          else
                            queryDoH_loop c e (BuiltClient (TLSConfig c) None (Timeout c))
                              (URL_String e u) 0 None)))"

section \<open>Single-server and multi-server queries\<close>

record Record =
  Name :: string
  Type :: "16 word"
  TTL :: "32 word"
  Value :: string

record QueryResult =
  Domain :: string
  Type :: "16 word"
  Records :: "Record list"
  Error :: "error option"
  Server :: string

record MultiQueryResult =
  Domain :: string
  Type :: "16 word"
  Results :: "QueryResult list"
  AllIPs :: "string list"

text \<open>
  A call returns, panics (a nil pointer is dereferenced), or blocks for ever (a receive
  on a channel nothing is sent to any more).
\<close>

datatype 'a exec = Panics | Blocks | Returns 'a

text \<open>The body of the loop over \<^verbatim>\<open>response.Answer\<close>: the record of one answer.\<close>

definition answerRecord :: "RR \<Rightarrow> Record" where
  "answerRecord rr =
     (let record = \<lparr>Record.Name = RR_Header.Name (rr_Header rr),
                    Record.Type = Rrtype (rr_Header rr),
                    TTL = Ttl (rr_Header rr), Value = []\<rparr>
      in case rr of
           RR_A h a \<Rightarrow> record\<lparr>Value := a\<rparr>
         | RR_AAAA h a \<Rightarrow> record\<lparr>Value := a\<rparr>
         | RR_CNAME h target \<Rightarrow> record\<lparr>Value := target\<rparr>
         | RR_MX h preference mx \<Rightarrow> record\<lparr>Value := utoa (unat preference) @ '' '' @ mx\<rparr>
         | RR_TXT h txt \<Rightarrow> record\<lparr>Value := Join txt '' ''\<rparr>
         | RR_other h s \<Rightarrow> record\<lparr>Value := s\<rparr>)"

definition queryServer ::
  "Config \<Rightarrow> env \<Rightarrow> string \<Rightarrow> 16 word \<Rightarrow> string
    \<Rightarrow> (QueryResult option \<times> error option) exec traced" where
  "queryServer c e domain qtype server =
     (let msg = \<lparr>MsgId = dns_Id e, RecursionDesired = True,
                 Question = [(dns_Fqdn e domain, qtype)], Answer = []\<rparr>;
          finish = (\<lambda>(tr, response, err).
            case err of
              Some err \<Rightarrow>
                (tr, Returns (Some \<lparr>QueryResult.Domain = domain, QueryResult.Type = qtype,
                                    Records = [], Error = Some err, Server = server\<rparr>,
                              Some err))
            | None \<Rightarrow>
                (case response of
                   None \<Rightarrow> (tr, Panics)
                 | Some response \<Rightarrow>
                     (tr, Returns (Some \<lparr>QueryResult.Domain = domain,
                                         QueryResult.Type = qtype,
                                         Records = map answerRecord (Answer response),
                                         Error = None, Server = server\<rparr>,
                                   None))))
      in if Protocol c = UDP \<or> Protocol c = TCP then finish (queryUDPTCP c e msg server)
         else if Protocol c = DoT then finish (queryDoT c e msg server)
         else if Protocol c = DoH then finish (queryDoH c e msg server)
         else ([], Returns (None, Some (errorString (''unsupported protocol: '' @ Protocol c)))))"

definition Query ::
  "Config \<Rightarrow> env \<Rightarrow> string \<Rightarrow> 16 word \<Rightarrow> (QueryResult option \<times> error option) exec traced" where
  "Query c e domain qtype =
     (case Servers c of
        [] \<Rightarrow> ([], Returns (None, Some (errorString ''no DNS servers configured'')))
      | server # _ \<Rightarrow> queryServer c e domain qtype server)"

text \<open>
  The goroutine \<^verbatim>\<open>MultiQuery\<close> starts for one server: what it sends to the result
  channel.
\<close>

definition goroutine :: "Config \<Rightarrow> env \<Rightarrow> string \<Rightarrow> 16 word \<Rightarrow> string \<Rightarrow> QueryResult exec" where
  "goroutine c e domain qtype srv =
     (case snd (queryServer c e domain qtype srv) of
        Panics \<Rightarrow> Panics
      | Blocks \<Rightarrow> Blocks
      | Returns (res, err) \<Rightarrow>
          (case res of
             None \<Rightarrow> Returns \<lparr>QueryResult.Domain = domain, QueryResult.Type = qtype,
                               Records = [], Error = err, Server = srv\<rparr>
           | Some res \<Rightarrow> Returns res))"

text \<open>
  The inner loop of the collection, over the records of one result, on the set of
  addresses seen and the list of addresses; \<^verbatim>\<open>ParseIP s\<close> stands for
  \<^verbatim>\<open>net.ParseIP(s) != nil\<close>. A key the Go map does not hold reads as false.
\<close>

fun collectIPs ::
  "(string \<Rightarrow> bool) \<Rightarrow> 16 word \<Rightarrow> Record list \<Rightarrow> (string \<rightharpoonup> bool) \<times> string list
    \<Rightarrow> (string \<rightharpoonup> bool) \<times> string list" where
  "collectIPs ParseIP qtype [] (ipSet, allIPs) = (ipSet, allIPs)"
| "collectIPs ParseIP qtype (record # records) (ipSet, allIPs) =
     (if (qtype = TypeA \<or> qtype = TypeAAAA) \<and> ParseIP (Value record) then
        (if \<not> (case ipSet (Value record) of None \<Rightarrow> False | Some b \<Rightarrow> b)
         then collectIPs ParseIP qtype records
                (ipSet(Value record \<mapsto> True), allIPs @ [Value record])
         else collectIPs ParseIP qtype records (ipSet, allIPs))
      else collectIPs ParseIP qtype records (ipSet, allIPs))"

text \<open>The collection loop, over the results in the order the channel delivers them.\<close>

fun collect ::
  "(string \<Rightarrow> bool) \<Rightarrow> 16 word \<Rightarrow> QueryResult list \<Rightarrow> MultiQueryResult \<times> (string \<rightharpoonup> bool)
    \<Rightarrow> MultiQueryResult \<times> (string \<rightharpoonup> bool)" where
  "collect ParseIP qtype [] (result, ipSet) = (result, ipSet)"
| "collect ParseIP qtype (res # rest) (result, ipSet) =
     (let result = result\<lparr>Results := Results result @ [res]\<rparr>
      in if Error res = None then
           (case collectIPs ParseIP qtype (Records res) (ipSet, AllIPs result) of
              (ipSet, allIPs) \<Rightarrow> collect ParseIP qtype rest (result\<lparr>AllIPs := allIPs\<rparr>, ipSet))
         else collect ParseIP qtype rest (result, ipSet))"

text \<open>
  \<^verbatim>\<open>MultiQuery\<close> starts one goroutine per configured server; goroutine \<open>j\<close> queries
  server \<open>j\<close> in its own world \<open>envs j\<close>. Which goroutine finishes first is not decided
  by the program: \<open>arrival\<close> lists the goroutines whose result reaches the channel, in the
  order it gets there (each index below the number of servers, none twice; a goroutine
  that is not listed never finishes). The channel has room for every result and hands
  them out first in, first out. The call returns the servers it started a goroutine for,
  and its result: a panic in a goroutine ends the program, and the collection blocks
  while fewer results have arrived than servers are configured.
\<close>

definition MultiQuery ::
  "Config \<Rightarrow> (string \<Rightarrow> bool) \<Rightarrow> (nat \<Rightarrow> env) \<Rightarrow> nat list \<Rightarrow> string \<Rightarrow> 16 word
    \<Rightarrow> string list \<times> (MultiQueryResult option \<times> error option) exec" where
  "MultiQuery c ParseIP envs arrival domain qtype =
     (if length (Servers c) = 0 then
        ([], Returns (None, Some (errorString ''no DNS servers configured'')))
      else
        (let result = \<lparr>Domain = domain, Type = qtype, Results = [], AllIPs = []\<rparr>;
             sent = map (\<lambda>j. goroutine c (envs j) domain qtype (Servers c ! j)) arrival;
             resultChan = concat (map (\<lambda>s. case s of Returns res \<Rightarrow> [res] | _ \<Rightarrow> []) sent)
         in if Panics \<in> set sent then (Servers c, Panics)
            else if length resultChan < length (Servers c) then (Servers c, Blocks)
            else (Servers c,
                  Returns (Some (fst (collect ParseIP qtype (take (length (Servers c)) resultChan)
                                        (result, Map.empty))),
                           None))))"

section \<open>Reading the event list\<close>

text \<open>The attempts and the waits of an event list, in their order.\<close>

fun is_timing :: "event \<Rightarrow> bool" where
  "is_timing (Attempt i) = True"
| "is_timing (Sleep d) = True"
| "is_timing (Cancelled d) = True"
| "is_timing (DirectExchange s) = False"
| "is_timing (ProxyDial s) = False"
| "is_timing (HTTPDo req) = False"

definition timing :: "event list \<Rightarrow> event list" where
  "timing tr = filter is_timing tr"

text \<open>The servers an event list connects to, directly or through the proxy.\<close>

fun targets :: "event list \<Rightarrow> string list" where
  "targets [] = []"
| "targets (DirectExchange s # tr) = s # targets tr"
| "targets (ProxyDial s # tr) = s # targets tr"
| "targets (ev # tr) = targets tr"

text \<open>The HTTP requests of an event list.\<close>

fun requests :: "event list \<Rightarrow> Request list" where
  "requests [] = []"
| "requests (HTTPDo req # tr) = req # requests tr"
| "requests (ev # tr) = requests tr"

text \<open>
  The events of the iterations \<open>i, \<dots>, k - 1\<close> of a retry loop when each of them fails
  and each wait runs its full length; \<open>trs j\<close> are the events of the operation in
  iteration \<open>j\<close>.
\<close>

definition failed_rounds :: "(int \<Rightarrow> event list) \<Rightarrow> int \<Rightarrow> int \<Rightarrow> event list" where
  "failed_rounds trs i k = concat (map (\<lambda>j. Attempt j # trs j @ [Sleep (backoff j)]) [i..k - 1])"

text \<open>
  The request \<^verbatim>\<open>queryDoH\<close> builds in each attempt, for the URL \<open>url\<close>. An attempt
  of \<^verbatim>\<open>queryDoH\<close> fails, and the loop goes on, when the request is created and then
  cannot be sent, or the status is not 200, or the body cannot be read or unpacked; the
  events of such an attempt end with the wait only when the request could not be sent.
\<close>

definition dohRequest :: "string \<Rightarrow> Request" where
  "dohRequest url =
     \<lparr>Method = ''GET'', RequestURL = url,
      Header = [''Accept'' \<mapsto> [''application/dns-message''],
                ''Content-Type'' \<mapsto> [''application/dns-message'']]\<rparr>"

definition doh_attempt_fails :: "env \<Rightarrow> httpClient \<Rightarrow> string \<Rightarrow> int \<Rightarrow> bool" where
  "doh_attempt_fails e httpClient url i =
     (NewRequestWithContext e (nat i) ''GET'' url = None
      \<and> (case Do e (nat i) httpClient (dohRequest url) of
            Inl err \<Rightarrow> True
          | Inr resp \<Rightarrow>
              StatusCode resp \<noteq> 200
              \<or> (case Body resp of
                    Inl err \<Rightarrow> True
                  | Inr body \<Rightarrow> (case Unpack e body of Inl err \<Rightarrow> True | Inr response \<Rightarrow> False))))"

definition doh_failed_round :: "env \<Rightarrow> httpClient \<Rightarrow> string \<Rightarrow> int \<Rightarrow> event list" where
  "doh_failed_round e httpClient url i =
     [Attempt i, HTTPDo (dohRequest url)]
     @ (case Do e (nat i) httpClient (dohRequest url) of
          Inl err \<Rightarrow> [Sleep (backoff i)]
        | Inr resp \<Rightarrow> [])"

section \<open>Example worlds\<close>

text \<open>
  Worlds to run the model in. In \<open>quiet_env\<close> no server answers and nothing cancels
  the context: every exchange times out, the proxy refuses every connection, and the
  HTTP client reaches nobody. Its URL library reads and prints the plain URLs
  \<^verbatim>\<open>https://host/path\<close> and, as a relative path, a text without a colon, and its
  wire codec knows one packed question.
\<close>

definition example_query :: Msg where
  "example_query =
     \<lparr>MsgId = 7, RecursionDesired = True, Question = [(''example.com.'', TypeA)], Answer = []\<rparr>"

definition example_answer :: Msg where
  "example_answer =
     example_query\<lparr>Answer :=
       [RR_A \<lparr>RR_Header.Name = ''example.com.'', Rrtype = TypeA, Ttl = 300\<rparr> ''93.184.216.34'']\<rparr>"

definition plain_url_Parse :: "string \<Rightarrow> error + URL" where
  "plain_url_Parse s =
     (if HasPrefix s ''https://'' then
        Inr \<lparr>Scheme = ''https'', User = None,
             Host = takeWhile (\<lambda>x. x \<noteq> CHR ''/'') (drop 8 s),
             Path = dropWhile (\<lambda>x. x \<noteq> CHR ''/'') (drop 8 s),
             RawQuery = [], Fragment = []\<rparr>
      else if \<not> Contains s '':'' then
        Inr \<lparr>Scheme = [], User = None, Host = [], Path = s, RawQuery = [], Fragment = []\<rparr>
      else Inl (errorString ''first path segment in URL cannot contain colon''))"

definition plain_URL_String :: "URL \<Rightarrow> string" where
  "plain_URL_String u =
     (if Scheme u = [] then Path u else Scheme u @ ''://'' @ Host u @ Path u)
     @ (if RawQuery u = [] then [] else ''?'' @ RawQuery u)"

definition plain_Values_Encode :: "Values \<Rightarrow> string" where
  "plain_Values_Encode q = (case q ''dns'' of Some [v] \<Rightarrow> ''dns='' @ v | _ \<Rightarrow> [])"

definition quiet_env :: env where
  "quiet_env =
     \<lparr>ctx_Done = (\<lambda>i. False), ctx_Err = DeadlineExceeded,
      ExchangeContext =
        (\<lambda>i client msg server. Inl (errorString (''i/o timeout, attempt '' @ utoa i))),
      proxy_SOCKS5 = (\<lambda>addr auth. Inr \<lparr>dialer_addr = addr, dialer_auth = auth\<rparr>),
      Dial = (\<lambda>i d server. Some (errorString ''connection refused'')),
      Handshake = (\<lambda>i t. None),
      WriteMsg = (\<lambda>i msg. None),
      ReadMsg = (\<lambda>i. Inl (errorString ''EOF'')),
      dns_Fqdn = (\<lambda>s. s @ ''.''),
      dns_Id = 7,
      Pack = (\<lambda>msg. Inr [0, 7, 1, 0, 0, 1]),
      Unpack = (\<lambda>body. Inl (errorString ''overflow unpacking uint16'')),
      url_Parse = plain_url_Parse,
      url_ParseQuery = (\<lambda>s. Map.empty),
      Values_Encode = plain_Values_Encode,
      URL_String = plain_URL_String,
      NewRequestWithContext = (\<lambda>i method url. None),
      Do = (\<lambda>i client req. Inl (errorString ''no route to host''))\<rparr>"

text \<open>The world \<open>e\<close>, but the server answers the exchanges from attempt \<open>k\<close> on.\<close>

definition answering_from :: "nat \<Rightarrow> env \<Rightarrow> env" where
  "answering_from k e =
     e\<lparr>ExchangeContext := (\<lambda>i client msg server.
         if i < k then ExchangeContext e i client msg server else Inr example_answer)\<rparr>"

text \<open>The world \<open>e\<close>, but the context is cancelled during the wait after attempt \<open>k\<close>.\<close>

definition cancelled_at :: "nat \<Rightarrow> env \<Rightarrow> env" where
  "cancelled_at k e = e\<lparr>ctx_Done := (\<lambda>i. i = k)\<rparr>"

text \<open>A stand-in for \<^verbatim>\<open>net.ParseIP\<close>: digits and dots only.\<close>

definition digits_and_dots :: "string \<Rightarrow> bool" where
  "digits_and_dots s = (s \<noteq> [] \<and> list_all (\<lambda>x. x \<in> set ''0123456789.'') s)"

text \<open>
  The result of a query the example server answers, and of one that timed out four
  times. Scenario A: three servers, of which the first two answer with the same address
  and the third never answers; the result of the third arrives first.
\<close>

definition example_success :: "string \<Rightarrow> QueryResult" where
  "example_success server =
     \<lparr>QueryResult.Domain = ''example.com'', QueryResult.Type = TypeA,
      Records = [\<lparr>Record.Name = ''example.com.'', Record.Type = TypeA, TTL = 300,
                  Value = ''93.184.216.34''\<rparr>],
      Error = None, Server = server\<rparr>"

definition example_failure :: "string \<Rightarrow> QueryResult" where
  "example_failure server =
     \<lparr>QueryResult.Domain = ''example.com'', QueryResult.Type = TypeA, Records = [],
      Error = Some (errorString ''i/o timeout, attempt 3''), Server = server\<rparr>"

definition two_answer :: "nat \<Rightarrow> env" where
  "two_answer j = (if j < 2 then answering_from 0 quiet_env else quiet_env)"

definition scenario_A :: Config where
  "scenario_A = config (New [WithServers [''8.8.8.8:53'', ''1.1.1.1:53'', ''9.9.9.9:53'']])"

definition scenario_A_result :: MultiQueryResult where
  "scenario_A_result =
     \<lparr>Domain = ''example.com'', Type = TypeA,
      Results = [example_failure ''9.9.9.9:53'', example_success ''8.8.8.8:53'',
                 example_success ''1.1.1.1:53''],
      AllIPs = [''93.184.216.34'']\<rparr>"

section \<open>Properties of the configuration options\<close>

lemma New_snoc: "config (New (opts @ [opt])) = opt (config (New opts))"
  by (simp add: New_def)

text \<open>
  Claim C10. \<open>WithProtocol\<close> writes the \<open>Protocol\<close> field and the \<open>Servers\<close> field
  (the default list of the protocol's family: the DoH list for DoH, the DoT list for DoT,
  the UDP list for every other protocol value) and leaves every other field as it was.
  So in every option sequence that applies \<open>WithProtocol\<close> after \<open>WithServers\<close>,
  whatever stands before and between them, the custom server list is gone once
  \<open>WithProtocol\<close> has run and the protocol's default list stands in its place.
\<close>

theorem WithProtocol_writes_Protocol_and_Servers:
  "Protocol (WithProtocol p c) = p
   \<and> Servers (WithProtocol p c) =
       (if p = DoH then DoHServers else if p = DoT then DoTServers else UDPServers)
   \<and> Timeout (WithProtocol p c) = Timeout c
   \<and> Retries (WithProtocol p c) = Retries c
   \<and> ProxyType (WithProtocol p c) = ProxyType c
   \<and> ProxyAddr (WithProtocol p c) = ProxyAddr c
   \<and> ProxyAuth (WithProtocol p c) = ProxyAuth c
   \<and> TLSConfig (WithProtocol p c) = TLSConfig c
   \<and> HTTPClient (WithProtocol p c) = HTTPClient c
   \<and> Servers (config (New (pre @ [WithServers custom] @ mid @ [WithProtocol p]))) =
       (if p = DoH then DoHServers else if p = DoT then DoTServers else UDPServers)"
proof -
  have frame: "WithProtocol p c =
      c\<lparr>Protocol := p,
        Servers := (if p = DoH then DoHServers else if p = DoT then DoTServers else UDPServers)\<rparr>"
    for c
    by (simp add: WithProtocol_def Let_def)
  have "config (New (pre @ [WithServers custom] @ mid @ [WithProtocol p])) =
      WithProtocol p (config (New (pre @ [WithServers custom] @ mid)))"
    using New_snoc [of "pre @ [WithServers custom] @ mid" "WithProtocol p"] by simp
  then show ?thesis
    by (simp add: frame)
qed

section \<open>Event lists\<close>

lemma timing_simps [simp]:
  "timing [] = []"
  "timing (tr @ tr') = timing tr @ timing tr'"
  "timing (Attempt i # tr) = Attempt i # timing tr"
  "timing (Sleep d # tr) = Sleep d # timing tr"
  "timing (Cancelled d # tr) = Cancelled d # timing tr"
  "timing (DirectExchange s # tr) = timing tr"
  "timing (ProxyDial s # tr) = timing tr"
  "timing (HTTPDo req # tr) = timing tr"
  by (simp_all add: timing_def)

lemma timing_concat_map:
  "(\<And>x. timing (f x) = g x) \<Longrightarrow> timing (concat (map f xs)) = concat (map g xs)"
  by (induction xs) simp_all

lemma requests_append [simp]: "requests (tr @ tr') = requests tr @ requests tr'"
  by (induction tr rule: requests.induct) simp_all

lemma targets_append [simp]: "targets (tr @ tr') = targets tr @ targets tr'"
  by (induction tr rule: targets.induct) simp_all

lemma emit_simps [simp]:
  "fst (emit tr r) = tr @ fst r" "snd (emit tr r) = snd r"
  by (simp_all add: emit_def)

lemma emit_emit: "emit tr (emit tr' r) = emit (tr @ tr') r"
  by (simp add: emit_def)

lemma emit_Nil [simp]: "emit [] r = r"
  by (simp add: emit_def)

lemma failed_rounds_empty [simp]: "failed_rounds trs i i = []"
  by (simp add: failed_rounds_def)

lemma failed_rounds_step:
  "i \<le> k \<Longrightarrow>
    failed_rounds trs i (k + 1) = failed_rounds trs i k @ (Attempt k # trs k @ [Sleep (backoff k)])"
  by (simp add: failed_rounds_def upto_rec2)

lemma timing_failed_rounds:
  assumes "\<And>j. timing (trs j) = []"
  shows "timing (failed_rounds trs i k) =
    concat (map (\<lambda>j. [Attempt j, Sleep (100 * Millisecond * (j + 1))]) [i..k - 1])"
  unfolding failed_rounds_def
  by (rule timing_concat_map) (simp add: assms backoff_def mult.commute)

lemma failed_rounds_no_events:
  "failed_rounds (\<lambda>j. []) i k =
    concat (map (\<lambda>j. [Attempt j, Sleep (100 * Millisecond * (j + 1))]) [i..k - 1])"
  by (simp add: failed_rounds_def backoff_def mult.commute)

lemma utoa_digit [simp]: "utoa 0 = ''0''" "utoa 1 = ''1''" "utoa 2 = ''2''" "utoa 3 = ''3''"
  by (simp_all add: utoa.simps)

section \<open>The retry loop of the UDP/TCP transport\<close>

lemma timing_exchangeWithProxy [simp]: "timing (fst (exchangeWithProxy c e i msg server)) = []"
  by (simp add: exchangeWithProxy_def split: sum.splits option.splits)

lemma timing_udptcp_attempt [simp]: "timing (fst (udptcp_attempt c e msg server i)) = []"
  by (simp add: udptcp_attempt_def split: sum.splits)

text \<open>One iteration that fails and whose wait runs out hands over to the next.\<close>

lemma queryUDPTCP_loop_failed_round:
  assumes "k < Retries c" "snd (snd (udptcp_attempt c e msg server k)) = Some err"
    "\<not> ctx_Done e (nat k)"
  shows "queryUDPTCP_loop c e msg server k lastErr =
    emit (Attempt k # fst (udptcp_attempt c e msg server k) @ [Sleep (backoff k)])
      (queryUDPTCP_loop c e msg server (k + 1) (Some err))"
  using assms
  by (subst queryUDPTCP_loop.simps) (auto split: prod.splits option.splits)

lemma queryUDPTCP_loop_failed_rounds:
  assumes "i \<le> k" "k \<le> Retries c"
    "\<forall>j. i \<le> j \<and> j < k \<longrightarrow> snd (snd (udptcp_attempt c e msg server j)) \<noteq> None"
    "\<forall>j. i \<le> j \<and> j < k \<longrightarrow> \<not> ctx_Done e (nat j)"
  shows "\<exists>lastErr'. queryUDPTCP_loop c e msg server i lastErr =
    emit (failed_rounds (\<lambda>j. fst (udptcp_attempt c e msg server j)) i k)
      (queryUDPTCP_loop c e msg server k lastErr')"
  using assms
proof (induction k rule: int_ge_induct)
  case base
  then show ?case by (intro exI [of _ lastErr]) simp
next
  case (step k)
  then obtain lastErr' where eq: "queryUDPTCP_loop c e msg server i lastErr =
    emit (failed_rounds (\<lambda>j. fst (udptcp_attempt c e msg server j)) i k)
      (queryUDPTCP_loop c e msg server k lastErr')"
    by fastforce
  from step.prems step.hyps obtain err
    where err: "snd (snd (udptcp_attempt c e msg server k)) = Some err"
    by fastforce
  have "queryUDPTCP_loop c e msg server k lastErr' =
    emit (Attempt k # fst (udptcp_attempt c e msg server k) @ [Sleep (backoff k)])
      (queryUDPTCP_loop c e msg server (k + 1) (Some err))"
    using step.prems step.hyps err by (intro queryUDPTCP_loop_failed_round) auto
  then show ?case
    using eq step.hyps by (intro exI [of _ "Some err"]) (simp add: emit_emit failed_rounds_step)
qed

lemma queryUDPTCP_loop_exit:
  "Retries c < i \<Longrightarrow> queryUDPTCP_loop c e msg server i lastErr = ([], None, lastErr)"
  by (subst queryUDPTCP_loop.simps) simp

lemma queryUDPTCP_loop_last_failed:
  assumes "snd (snd (udptcp_attempt c e msg server (Retries c))) = Some err"
  shows "queryUDPTCP_loop c e msg server (Retries c) lastErr =
    (Attempt (Retries c) # fst (udptcp_attempt c e msg server (Retries c)), None, Some err)"
  using assms
  by (subst queryUDPTCP_loop.simps)
    (auto split: prod.splits option.splits simp: queryUDPTCP_loop_exit emit_def)

lemma queryUDPTCP_loop_success:
  assumes "k \<le> Retries c" "snd (snd (udptcp_attempt c e msg server k)) = None"
  shows "queryUDPTCP_loop c e msg server k lastErr =
    (Attempt k # fst (udptcp_attempt c e msg server k),
     fst (snd (udptcp_attempt c e msg server k)), None)"
  using assms
  by (subst queryUDPTCP_loop.simps) (auto split: prod.splits option.splits)

lemma queryUDPTCP_loop_cancelled:
  assumes "k < Retries c" "snd (snd (udptcp_attempt c e msg server k)) \<noteq> None"
    "ctx_Done e (nat k)"
  shows "queryUDPTCP_loop c e msg server k lastErr =
    (Attempt k # fst (udptcp_attempt c e msg server k) @ [Cancelled (backoff k)], None,
     Some (ctx_Err e))"
  using assms
  by (subst queryUDPTCP_loop.simps) (auto split: prod.splits option.splits)

text \<open>
  Claim C2. Let the retry count \<open>R\<close> of the configuration be at least 0, and let no wait
  of the query be cut short by the context. If the operation fails on every attempt, the
  UDP/TCP query runs it exactly \<open>R + 1\<close> times (iterations \<open>0, \<dots>, R\<close>), waits 100 ms
  times \<open>i + 1\<close> after attempt \<open>i\<close> for \<open>i < R\<close>, that is 100 ms, 200 ms, \<dots>, \<open>R\<close> times
  100 ms between consecutive attempts and nothing after the last, and returns the error
  of attempt \<open>R\<close>. If the attempts before attempt \<open>k\<close> fail and attempt \<open>k\<close> succeeds, the
  query returns its response with no error, and attempt \<open>k\<close> is the last event.
\<close>

theorem queryUDPTCP_retry_bound:
  assumes R: "0 \<le> Retries c"
    and nocancel: "\<forall>i. 0 \<le> i \<and> i < Retries c \<longrightarrow> \<not> ctx_Done e (nat i)"
  shows
    "((\<forall>i. 0 \<le> i \<and> i \<le> Retries c \<longrightarrow>
          snd (snd (udptcp_attempt c e msg server i)) = Some (errs i)) \<longrightarrow>
        snd (queryUDPTCP c e msg server) = (None, Some (errs (Retries c)))
      \<and> timing (fst (queryUDPTCP c e msg server)) =
          concat (map (\<lambda>i. [Attempt i, Sleep (100 * Millisecond * (i + 1))]) [0..Retries c - 1])
          @ [Attempt (Retries c)])
   \<and> (\<forall>k response. 0 \<le> k \<and> k \<le> Retries c
        \<and> (\<forall>i. 0 \<le> i \<and> i < k \<longrightarrow> snd (snd (udptcp_attempt c e msg server i)) \<noteq> None)
        \<and> snd (udptcp_attempt c e msg server k) = (response, None) \<longrightarrow>
        snd (queryUDPTCP c e msg server) = (response, None)
      \<and> timing (fst (queryUDPTCP c e msg server)) =
          concat (map (\<lambda>i. [Attempt i, Sleep (100 * Millisecond * (i + 1))]) [0..k - 1])
          @ [Attempt k])"
proof (intro conjI impI allI)
  let ?trs = "\<lambda>j. fst (udptcp_attempt c e msg server j)"
  have sched: "timing (failed_rounds ?trs 0 k) =
      concat (map (\<lambda>i. [Attempt i, Sleep (100 * Millisecond * (i + 1))]) [0..k - 1])" for k
    by (rule timing_failed_rounds) simp
  {
    assume fail: "\<forall>i. 0 \<le> i \<and> i \<le> Retries c \<longrightarrow>
      snd (snd (udptcp_attempt c e msg server i)) = Some (errs i)"
    from R nocancel fail obtain lastErr' where
      "queryUDPTCP_loop c e msg server 0 None =
        emit (failed_rounds ?trs 0 (Retries c))
          (queryUDPTCP_loop c e msg server (Retries c) lastErr')"
      using queryUDPTCP_loop_failed_rounds [of 0 "Retries c" c e msg server None] by auto
    moreover have "queryUDPTCP_loop c e msg server (Retries c) lastErr' =
        (Attempt (Retries c) # ?trs (Retries c), None, Some (errs (Retries c)))"
      using fail R by (intro queryUDPTCP_loop_last_failed) simp
    ultimately have eq: "queryUDPTCP c e msg server =
        emit (failed_rounds ?trs 0 (Retries c))
          (Attempt (Retries c) # ?trs (Retries c), None, Some (errs (Retries c)))"
      by (simp add: queryUDPTCP_def)
    show "snd (queryUDPTCP c e msg server) = (None, Some (errs (Retries c)))"
      by (simp add: eq)
    show "timing (fst (queryUDPTCP c e msg server)) =
          concat (map (\<lambda>i. [Attempt i, Sleep (100 * Millisecond * (i + 1))]) [0..Retries c - 1])
          @ [Attempt (Retries c)]"
      by (simp add: eq sched)
  }
  {
    fix k response
    assume k: "0 \<le> k \<and> k \<le> Retries c
        \<and> (\<forall>i. 0 \<le> i \<and> i < k \<longrightarrow> snd (snd (udptcp_attempt c e msg server i)) \<noteq> None)
        \<and> snd (udptcp_attempt c e msg server k) = (response, None)"
    with nocancel obtain lastErr' where
      "queryUDPTCP_loop c e msg server 0 None =
        emit (failed_rounds ?trs 0 k) (queryUDPTCP_loop c e msg server k lastErr')"
      using queryUDPTCP_loop_failed_rounds [of 0 k c e msg server None] by auto
    moreover have "queryUDPTCP_loop c e msg server k lastErr' =
        (Attempt k # ?trs k, response, None)"
      using k queryUDPTCP_loop_success [of k c e msg server lastErr'] by simp
    ultimately have eq: "queryUDPTCP c e msg server =
        emit (failed_rounds ?trs 0 k) (Attempt k # ?trs k, response, None)"
      by (simp add: queryUDPTCP_def)
    show "snd (queryUDPTCP c e msg server) = (response, None)"
      by (simp add: eq)
    show "timing (fst (queryUDPTCP c e msg server)) =
          concat (map (\<lambda>i. [Attempt i, Sleep (100 * Millisecond * (i + 1))]) [0..k - 1])
          @ [Attempt k]"
      by (simp add: eq sched)
  }
qed

text \<open>
  With two retries and a server that never answers: three attempts, waits of 100 ms and
  200 ms, and the error of the third attempt. With a server that answers the second
  attempt: two attempts, one wait, the answer.
\<close>

theorem queryUDPTCP_retry_bound_witness:
  "snd (queryUDPTCP (config (New [WithRetries 2])) quiet_env example_query ''8.8.8.8:53'') =
      (None, Some (errorString ''i/o timeout, attempt 2''))
   \<and> timing (fst (queryUDPTCP (config (New [WithRetries 2])) quiet_env example_query
        ''8.8.8.8:53'')) =
      [Attempt 0, Sleep 100000000, Attempt 1, Sleep 200000000, Attempt 2]
   \<and> snd (queryUDPTCP (config (New [WithRetries 2])) (answering_from 1 quiet_env) example_query
        ''8.8.8.8:53'') =
      (Some example_answer, None)
   \<and> timing (fst (queryUDPTCP (config (New [WithRetries 2])) (answering_from 1 quiet_env)
        example_query ''8.8.8.8:53'')) =
      [Attempt 0, Sleep 100000000, Attempt 1]"
proof -
  let ?c = "config (New [WithRetries 2])"
  let ?e = "answering_from 1 quiet_env"
  let ?errs = "\<lambda>i. errorString (''i/o timeout, attempt '' @ utoa (nat i))"
  have c: "Retries ?c = 2" "ProxyType ?c = NoProxy"
    by (simp_all add: New_def WithRetries_def defaultConfig_def)
  have R: "0 \<le> Retries ?c"
    by (simp add: c)
  have quiet: "\<forall>i. 0 \<le> i \<and> i < Retries ?c \<longrightarrow> \<not> ctx_Done quiet_env (nat i)"
    by (simp add: quiet_env_def)
  have quiet': "\<forall>i. 0 \<le> i \<and> i < Retries ?c \<longrightarrow> \<not> ctx_Done ?e (nat i)"
    by (simp add: answering_from_def quiet_env_def)
  have fails: "\<forall>i. 0 \<le> i \<and> i \<le> Retries ?c \<longrightarrow>
      snd (snd (udptcp_attempt ?c quiet_env example_query ''8.8.8.8:53'' i)) = Some (?errs i)"
    by (simp add: udptcp_attempt_def c quiet_env_def)
  have answers: "0 \<le> (1::int) \<and> 1 \<le> Retries ?c
      \<and> (\<forall>i. 0 \<le> i \<and> i < 1 \<longrightarrow>
            snd (snd (udptcp_attempt ?c ?e example_query ''8.8.8.8:53'' i)) \<noteq> None)
      \<and> snd (udptcp_attempt ?c ?e example_query ''8.8.8.8:53'' 1) = (Some example_answer, None)"
    by (simp add: udptcp_attempt_def c quiet_env_def answering_from_def)
  note all_fail =
    queryUDPTCP_retry_bound [OF R quiet, of example_query "''8.8.8.8:53''" ?errs,
      THEN conjunct1, THEN mp, OF fails]
  note success =
    queryUDPTCP_retry_bound [OF R quiet', of example_query "''8.8.8.8:53''" ?errs,
      THEN conjunct2, THEN spec, THEN spec, THEN mp, OF answers]
  show ?thesis
    using all_fail success by (simp add: c Millisecond_def upto_rec1)
qed

section \<open>An HTTP proxy with the UDP/TCP transport\<close>

lemma udptcp_attempt_HTTPProxy:
  assumes "ProxyType c = HTTPProxy"
  shows "udptcp_attempt c e msg server i =
    ([], None, Some (errorString ''failed to create proxy dialer: unsupported proxy type for dialer: http''))"
  using assms
  by (simp add: udptcp_attempt_def exchangeWithProxy_def createDialer_def HTTPProxy_def
      NoProxy_def SOCKS5_def Errorf_v_def)

text \<open>
  Claim C6, as the code has it. With an HTTP proxy selected and the UDP or TCP protocol,
  every attempt of a single-server query fails with the configuration error
  \<^verbatim>\<open>failed to create proxy dialer: unsupported proxy type for dialer: http\<close> before
  anything is dialled: the event list holds attempts and waits only, so neither a
  connection through the proxy nor a direct exchange with the server is tried. The loop
  retries this error like any other: with retry count \<open>R \<ge> 0\<close> and no wait cut short by
  the context there are \<open>R + 1\<close> attempts with the waits of 100 ms, 200 ms, \<dots> between
  them, and the query returns a result that carries domain, type, server and that error.
\<close>

theorem queryServer_HTTPProxy_UDPTCP:
  assumes proxy: "ProxyType c = HTTPProxy"
    and proto: "Protocol c = UDP \<or> Protocol c = TCP"
    and R: "0 \<le> Retries c"
    and nocancel: "\<forall>i. 0 \<le> i \<and> i < Retries c \<longrightarrow> \<not> ctx_Done e (nat i)"
  shows "queryServer c e domain qtype server =
    (concat (map (\<lambda>i. [Attempt i, Sleep (100 * Millisecond * (i + 1))]) [0..Retries c - 1])
       @ [Attempt (Retries c)],
     Returns
       (Some \<lparr>QueryResult.Domain = domain, QueryResult.Type = qtype, Records = [],
              Error = Some (errorString
                ''failed to create proxy dialer: unsupported proxy type for dialer: http''),
              Server = server\<rparr>,
        Some (errorString
          ''failed to create proxy dialer: unsupported proxy type for dialer: http'')))"
proof -
  let ?err = "errorString ''failed to create proxy dialer: unsupported proxy type for dialer: http''"
  let ?msg = "\<lparr>MsgId = dns_Id e, RecursionDesired = True,
                 Question = [(dns_Fqdn e domain, qtype)], Answer = []\<rparr>"
  have att: "udptcp_attempt c e ?msg server i = ([], None, Some ?err)" for i
    by (rule udptcp_attempt_HTTPProxy) (rule proxy)
  from R nocancel obtain lastErr' where
    "queryUDPTCP_loop c e ?msg server 0 None =
      emit (failed_rounds (\<lambda>j. fst (udptcp_attempt c e ?msg server j)) 0 (Retries c))
        (queryUDPTCP_loop c e ?msg server (Retries c) lastErr')"
    using queryUDPTCP_loop_failed_rounds [of 0 "Retries c" c e ?msg server None]
    by (auto simp: att)
  moreover have "queryUDPTCP_loop c e ?msg server (Retries c) lastErr' =
      (Attempt (Retries c) # fst (udptcp_attempt c e ?msg server (Retries c)), None, Some ?err)"
    by (rule queryUDPTCP_loop_last_failed) (simp add: att)
  ultimately have "queryUDPTCP c e ?msg server =
      (concat (map (\<lambda>i. [Attempt i, Sleep (100 * Millisecond * (i + 1))]) [0..Retries c - 1])
         @ [Attempt (Retries c)], None, Some ?err)"
    by (simp add: queryUDPTCP_def att failed_rounds_no_events emit_def)
  then show ?thesis
    using proto by (auto simp: queryServer_def Let_def)
qed

text \<open>
  One retry: two attempts and one wait, with nothing dialled.
\<close>

theorem queryServer_HTTPProxy_UDPTCP_witness:
  "queryServer (config (New [WithHTTPProxy ''127.0.0.1:8080'' None, WithRetries 1])) quiet_env
      ''example.com'' TypeA ''8.8.8.8:53'' =
    ([Attempt 0, Sleep 100000000, Attempt 1],
     Returns
       (Some \<lparr>QueryResult.Domain = ''example.com'', QueryResult.Type = TypeA, Records = [],
              Error = Some (errorString
                ''failed to create proxy dialer: unsupported proxy type for dialer: http''),
              Server = ''8.8.8.8:53''\<rparr>,
        Some (errorString
          ''failed to create proxy dialer: unsupported proxy type for dialer: http'')))"
proof -
  let ?c = "config (New [WithHTTPProxy ''127.0.0.1:8080'' None, WithRetries 1])"
  have c: "ProxyType ?c = HTTPProxy" "Protocol ?c = UDP \<or> Protocol ?c = TCP" "0 \<le> Retries ?c"
    by (simp_all add: New_def WithHTTPProxy_def WithRetries_def defaultConfig_def)
  have r: "Retries ?c = 1"
    by (simp add: New_def WithHTTPProxy_def WithRetries_def defaultConfig_def)
  have quiet: "\<forall>i. 0 \<le> i \<and> i < Retries ?c \<longrightarrow> \<not> ctx_Done quiet_env (nat i)"
    by (simp add: quiet_env_def)
  from queryServer_HTTPProxy_UDPTCP [OF c quiet, of "''example.com''" TypeA "''8.8.8.8:53''"]
  show ?thesis
    by (simp add: r Millisecond_def upto_rec1)
qed

text \<open>
  Claim C6 as stated (exactly one attempt and no backoff wait) fails on the default
  configuration with an HTTP proxy: the query makes four attempts and waits three times.
\<close>

theorem HTTPProxy_UDP_is_retried:
  "timing (fst (queryServer (config (New [WithHTTPProxy ''127.0.0.1:8080'' None])) quiet_env
      ''example.com'' TypeA ''8.8.8.8:53'')) =
    [Attempt 0, Sleep 100000000, Attempt 1, Sleep 200000000, Attempt 2, Sleep 300000000, Attempt 3]
   \<and> timing (fst (queryServer (config (New [WithHTTPProxy ''127.0.0.1:8080'' None])) quiet_env
      ''example.com'' TypeA ''8.8.8.8:53'')) \<noteq> [Attempt 0]"
  by (simp add: queryServer_def queryUDPTCP_def queryUDPTCP_loop.simps udptcp_attempt_HTTPProxy
      New_def WithHTTPProxy_def defaultConfig_def UDP_def TCP_def quiet_env_def backoff_def
      Millisecond_def emit_def)

section \<open>The port of a DoT server\<close>

lemma Contains_char: "Contains s [x] \<longleftrightarrow> x \<in> set s"
  by (induction s) auto

lemma targets_exchangeDoTWithProxy:
  "set (targets (fst (exchangeDoTWithProxy c e i msg server tlsConfig))) \<subseteq> {server}"
  by (simp add: exchangeDoTWithProxy_def split: sum.splits option.splits)

lemma targets_dot_attempt:
  "set (targets (fst (dot_attempt c e msg server tlsConfig i))) \<subseteq> {server}"
  using targets_exchangeDoTWithProxy [of c e "nat i" msg server tlsConfig]
  by (simp add: dot_attempt_def split: sum.splits)

lemma queryDoT_loop_exit:
  "Retries c < i \<Longrightarrow> queryDoT_loop c e msg server tlsConfig i lastErr = ([], None, lastErr)"
  by (subst queryDoT_loop.simps) simp

lemma targets_queryDoT_loop:
  "set (targets (fst (queryDoT_loop c e msg server tlsConfig i lastErr))) \<subseteq> {server}"
proof (induction c e msg server tlsConfig i lastErr rule: queryDoT_loop.induct)
  case (1 c e msg server tlsConfig i lastErr)
  show ?case
    using "1.IH" targets_dot_attempt [of c e msg server tlsConfig i]
    by (subst queryDoT_loop.simps)
      (auto split: prod.splits option.splits simp: queryDoT_loop_exit)
qed

lemma queryDoT_loop_first_target:
  assumes "0 \<le> Retries c" "ProxyType c = NoProxy"
  shows "\<exists>tr. targets (fst (queryDoT_loop c e msg server tlsConfig 0 lastErr)) = server # tr"
  using assms
  by (subst queryDoT_loop.simps)
    (auto simp: dot_attempt_def split: prod.splits option.splits sum.splits)

text \<open>
  What \<^verbatim>\<open>queryDoT\<close> connects to: every exchange and every connection through the
  proxy goes to the address itself when it holds a colon, and to the address followed by
  \<^verbatim>\<open>:853\<close> when it holds none.
\<close>

lemma queryDoT_targets:
  "set (targets (fst (queryDoT c e msg server))) \<subseteq>
      {if CHR '':'' \<in> set server then server else server @ '':853''}
   \<and> (0 \<le> Retries c \<and> ProxyType c = NoProxy \<longrightarrow>
        hd (targets (fst (queryDoT c e msg server))) =
          (if CHR '':'' \<in> set server then server else server @ '':853''))"
proof -
  have "\<exists>tr. targets (fst (queryDoT c e msg server)) =
      (if CHR '':'' \<in> set server then server else server @ '':853'') # tr"
    if "0 \<le> Retries c" "ProxyType c = NoProxy"
    using queryDoT_loop_first_target [OF that] by (simp add: queryDoT_def Let_def Contains_char)
  then show ?thesis
    using targets_queryDoT_loop by (auto simp add: queryDoT_def Let_def Contains_char)
qed

text \<open>
  Claim C9. The address \<^verbatim>\<open>9.9.9.9\<close> becomes \<^verbatim>\<open>9.9.9.9:853\<close>. The test of the code
  is for a colon, not for a port: the IPv6 address \<^verbatim>\<open>2001:4860:4860::8888\<close>, which
  carries no port, is used as it is, without the port 853.
\<close>

theorem queryDoT_bare_IPv6:
  "targets (fst (queryDoT (config (New [WithProtocol DoT, WithRetries 0])) quiet_env example_query
      ''2001:4860:4860::8888'')) = [''2001:4860:4860::8888'']
   \<and> targets (fst (queryDoT (config (New [WithProtocol DoT, WithRetries 0])) quiet_env example_query
      ''9.9.9.9'')) = [''9.9.9.9:853'']"
  by (simp add: queryDoT_def queryDoT_loop.simps dot_attempt_def New_def WithProtocol_def
      WithRetries_def defaultConfig_def NoProxy_def quiet_env_def emit_def Let_def prefix_code)

section \<open>The request of the DoH transport\<close>

lemma length_encodeURL: "length encodeURL = 64"
  by (simp add: encodeURL_def)

lemma encodeURL_nth [simp]: "n mod 64 < length encodeURL"
  by (simp add: length_encodeURL)

lemma EncodeToString_alphabet: "set (EncodeToString src) \<subseteq> set encodeURL"
  by (induction src rule: EncodeToString.induct) (simp_all add: Let_def del: encodeURL_def)

lemma EncodeToString_no_padding: "CHR ''='' \<notin> set (EncodeToString src)"
proof -
  have "CHR ''='' \<notin> set encodeURL"
    by (simp add: encodeURL_def)
  then show ?thesis
    using EncodeToString_alphabet by blast
qed

lemma queryDoH_loop_exit:
  "Retries c < i \<Longrightarrow> queryDoH_loop c e httpClient url i lastErr = ([], None, lastErr)"
  by (subst queryDoH_loop.simps) simp

lemma requests_queryDoH_loop:
  "set (requests (fst (queryDoH_loop c e httpClient url i lastErr))) \<subseteq>
    {\<lparr>Method = ''GET'', RequestURL = url,
      Header = [''Accept'' \<mapsto> [''application/dns-message''],
                ''Content-Type'' \<mapsto> [''application/dns-message'']]\<rparr>}"
proof (induction "nat (Retries c + 1 - i)" arbitrary: i lastErr)
  case 0
  then show ?case by (simp add: queryDoH_loop_exit)
next
  case (Suc n)
  then have "n = nat (Retries c + 1 - (i + 1))"
    by simp
  from Suc.hyps(1) [OF this] show ?case
    by (subst queryDoH_loop.simps)
      (auto split: prod.splits option.splits sum.splits simp: Let_def)
qed

lemma queryDoH_loop_first_request:
  assumes "0 \<le> Retries c" "NewRequestWithContext e 0 ''GET'' url = None"
  shows "\<exists>tr. requests (fst (queryDoH_loop c e httpClient url 0 lastErr)) =
    \<lparr>Method = ''GET'', RequestURL = url,
      Header = [''Accept'' \<mapsto> [''application/dns-message''],
                ''Content-Type'' \<mapsto> [''application/dns-message'']]\<rparr> # tr"
  using assms
  by (subst queryDoH_loop.simps)
    (auto split: prod.splits option.splits sum.splits simp: Let_def)

text \<open>
  Let the server address not start with \<^verbatim>\<open>http\<close>, let the query pack to \<open>msgBytes\<close>
  and let the URL library parse \<^verbatim>\<open>https://<serverAddress>/dns-query\<close> to \<open>u\<close>. Then
  every request of the DoH strategy is a GET request to the URL \<open>u\<close> with the query
  parameter \<^verbatim>\<open>dns\<close> set to the base64url encoding without padding of \<open>msgBytes\<close>, and
  its headers \<^verbatim>\<open>Accept\<close> and \<^verbatim>\<open>Content-Type\<close> are \<^verbatim>\<open>application/dns-message\<close>. The
  request is sent (it is the first request of the query) when the retry count is at
  least 0, an HTTP client is configured or can be built, and the request itself can be
  created.
\<close>

theorem queryDoH_request:
  assumes notURL: "\<not> HasPrefix server ''http''"
    and pack: "Pack e msg = Inr msgBytes"
    and parse: "url_Parse e (''https://'' @ server @ ''/dns-query'') = Inr u"
  shows
    "set (requests (fst (queryDoH c e msg server))) \<subseteq>
       {\<lparr>Method = ''GET'',
         RequestURL = URL_String e (u\<lparr>RawQuery :=
           Values_Encode e
             ((url_ParseQuery e (RawQuery u))(''dns'' \<mapsto> [EncodeToString msgBytes]))\<rparr>),
         Header = [''Accept'' \<mapsto> [''application/dns-message''],
                   ''Content-Type'' \<mapsto> [''application/dns-message'']]\<rparr>}
     \<and> (0 \<le> Retries c
          \<and> (HTTPClient c \<noteq> None \<or> ProxyType c = NoProxy \<or> (\<exists>proxyURL. getProxyURL c e = Inr proxyURL))
          \<and> NewRequestWithContext e 0 ''GET''
               (URL_String e (u\<lparr>RawQuery :=
                  Values_Encode e
                    ((url_ParseQuery e (RawQuery u))(''dns'' \<mapsto> [EncodeToString msgBytes]))\<rparr>))
              = None \<longrightarrow>
          hd (requests (fst (queryDoH c e msg server))) =
            \<lparr>Method = ''GET'',
              RequestURL = URL_String e (u\<lparr>RawQuery :=
                Values_Encode e
                  ((url_ParseQuery e (RawQuery u))(''dns'' \<mapsto> [EncodeToString msgBytes]))\<rparr>),
              Header = [''Accept'' \<mapsto> [''application/dns-message''],
                        ''Content-Type'' \<mapsto> [''application/dns-message'']]\<rparr>)"
proof -
  let ?url = "URL_String e (u\<lparr>RawQuery :=
      Values_Encode e ((url_ParseQuery e (RawQuery u))(''dns'' \<mapsto> [EncodeToString msgBytes]))\<rparr>)"
  let ?req = "\<lparr>Method = ''GET'', RequestURL = ?url,
      Header = [''Accept'' \<mapsto> [''application/dns-message''],
                ''Content-Type'' \<mapsto> [''application/dns-message'']]\<rparr>"
  have loop: "set (requests (fst (queryDoH_loop c e httpClient ?url 0 None))) \<subseteq> {?req}"
    for httpClient
    by (rule requests_queryDoH_loop)
  have "set (requests (fst (queryDoH c e msg server))) \<subseteq> {?req}"
    using notURL loop
    by (simp add: queryDoH_def pack parse [simplified] Let_def split: option.splits sum.splits)
  moreover have "hd (requests (fst (queryDoH c e msg server))) = ?req"
    if "0 \<le> Retries c"
      and client: "HTTPClient c \<noteq> None \<or> ProxyType c = NoProxy \<or> (\<exists>proxyURL. getProxyURL c e = Inr proxyURL)"
      and "NewRequestWithContext e 0 ''GET'' ?url = None"
  proof -
    have first: "hd (requests (fst (queryDoH_loop c e httpClient ?url 0 None))) = ?req"
      for httpClient
      using queryDoH_loop_first_request [OF that(1) that(3), of httpClient None] by auto
    show ?thesis
      using notURL client first
      by (auto simp add: queryDoH_def pack parse [simplified] Let_def split: option.splits sum.splits)
  qed
  ultimately show ?thesis
    by blast
qed

text \<open>
  Scenario B: for the server address \<^verbatim>\<open>dns.example.org\<close> and a query that packs to the
  bytes 0, 7, 1, 0, 0, 1, the request goes to
  \<^verbatim>\<open>https://dns.example.org/dns-query?dns=AAcBAAAB\<close>.
\<close>

theorem queryDoH_request_witness:
  "\<not> HasPrefix ''dns.example.org'' ''http''
   \<and> set (requests (fst (queryDoH (config (New [WithProtocol DoH])) quiet_env example_query
        ''dns.example.org''))) \<subseteq>
       {\<lparr>Method = ''GET'', RequestURL = ''https://dns.example.org/dns-query?dns=AAcBAAAB'',
         Header = [''Accept'' \<mapsto> [''application/dns-message''],
                   ''Content-Type'' \<mapsto> [''application/dns-message'']]\<rparr>}
   \<and> hd (requests (fst (queryDoH (config (New [WithProtocol DoH])) quiet_env example_query
        ''dns.example.org''))) =
       \<lparr>Method = ''GET'', RequestURL = ''https://dns.example.org/dns-query?dns=AAcBAAAB'',
         Header = [''Accept'' \<mapsto> [''application/dns-message''],
                   ''Content-Type'' \<mapsto> [''application/dns-message'']]\<rparr>"
proof -
  let ?c = "config (New [WithProtocol DoH])"
  let ?u = "\<lparr>Scheme = ''https'', User = None, Host = ''dns.example.org'', Path = ''/dns-query'',
             RawQuery = [], Fragment = []\<rparr>"
  have notURL: "\<not> HasPrefix ''dns.example.org'' ''http''"
    by (simp add: HasPrefix_def prefix_code)
  have pack: "Pack quiet_env example_query = Inr [0, 7, 1, 0, 0, 1]"
    by (simp add: quiet_env_def)
  have parse: "url_Parse quiet_env (''https://'' @ ''dns.example.org'' @ ''/dns-query'') = Inr ?u"
    by (simp add: quiet_env_def plain_url_Parse_def HasPrefix_def prefix_code)
  have "encodeURL ! 0 = CHR ''A''" "encodeURL ! 1 = CHR ''B''" "encodeURL ! 28 = CHR ''c''"
    by (simp_all add: encodeURL_def)
  then have b64: "EncodeToString [0, 7, 1, 0, 0, 1] = ''AAcBAAAB''"
    by (simp add: Let_def)
  have url: "URL_String quiet_env (?u\<lparr>RawQuery :=
      Values_Encode quiet_env
        ((url_ParseQuery quiet_env (RawQuery ?u))(''dns'' \<mapsto> [EncodeToString [0, 7, 1, 0, 0, 1]]))\<rparr>)
      = ''https://dns.example.org/dns-query?dns=AAcBAAAB''"
    unfolding b64 by (simp add: quiet_env_def plain_URL_String_def plain_Values_Encode_def)
  have c: "0 \<le> Retries ?c" "ProxyType ?c = NoProxy"
    by (simp_all add: New_def WithProtocol_def defaultConfig_def Let_def)
  have new: "NewRequestWithContext quiet_env 0 ''GET'' x = None" for x
    by (simp add: quiet_env_def)
  from queryDoH_request [OF notURL pack parse, of ?c] show ?thesis
    unfolding url using notURL c new by simp
qed

text \<open>
  Claim C8. The test of the code for a URL is that the address starts with
  \<^verbatim>\<open>http\<close>. The host name \<^verbatim>\<open>httpdns.example.org\<close> does, and is taken for a URL: the
  request goes to \<^verbatim>\<open>httpdns.example.org?dns=AAcBAAAB\<close>, with neither the scheme
  \<^verbatim>\<open>https\<close> nor the path \<^verbatim>\<open>/dns-query\<close>, while for \<^verbatim>\<open>dns.example.org\<close> it goes to
  \<^verbatim>\<open>https://dns.example.org/dns-query?dns=AAcBAAAB\<close>.
\<close>

theorem queryDoH_host_starting_with_http:
  "HasPrefix ''httpdns.example.org'' ''http''
   \<and> map RequestURL (requests (fst (queryDoH (config (New [WithProtocol DoH, WithRetries 0]))
        quiet_env example_query ''httpdns.example.org''))) =
      [''httpdns.example.org?dns=AAcBAAAB'']
   \<and> map RequestURL (requests (fst (queryDoH (config (New [WithProtocol DoH, WithRetries 0]))
        quiet_env example_query ''dns.example.org''))) =
      [''https://dns.example.org/dns-query?dns=AAcBAAAB'']"
proof -
  let ?c = "config (New [WithProtocol DoH, WithRetries 0])"
  have c: "Retries ?c = 0" "ProxyType ?c = NoProxy" "HTTPClient ?c = None"
    by (simp_all add: New_def WithProtocol_def WithRetries_def defaultConfig_def Let_def)
  have idx: "encodeURL ! 0 = CHR ''A''" "encodeURL ! Suc 0 = CHR ''B''" "encodeURL ! 28 = CHR ''c''"
    by (simp_all add: encodeURL_def)
  have pack: "Pack quiet_env msg = Inr [0, 7, 1, 0, 0, 1]" for msg
    by (simp add: quiet_env_def)
  have env: "url_Parse quiet_env = plain_url_Parse" "url_ParseQuery quiet_env = (\<lambda>s. Map.empty)"
    "Values_Encode quiet_env = plain_Values_Encode" "URL_String quiet_env = plain_URL_String"
    by (simp_all add: quiet_env_def)
  have loop: "requests (fst (queryDoH_loop ?c quiet_env httpClient url 0 None)) = [dohRequest url]"
    for httpClient url
    by (simp add: queryDoH_loop.simps c quiet_env_def dohRequest_def Let_def emit_def)
  show ?thesis
    unfolding queryDoH_def pack
    by (simp add: c loop idx dohRequest_def HasPrefix_def prefix_code env
        plain_url_Parse_def plain_URL_String_def plain_Values_Encode_def Let_def)
qed

section \<open>Cancellation during a backoff wait\<close>

lemma timing_exchangeDoTWithProxy [simp]:
  "timing (fst (exchangeDoTWithProxy c e i msg server tlsConfig)) = []"
  by (simp add: exchangeDoTWithProxy_def split: sum.splits option.splits)

lemma timing_dot_attempt [simp]: "timing (fst (dot_attempt c e msg server tlsConfig i)) = []"
  by (simp add: dot_attempt_def split: sum.splits)

lemma queryDoT_loop_failed_round:
  assumes "k < Retries c" "snd (snd (dot_attempt c e msg server tlsConfig k)) = Some err"
    "\<not> ctx_Done e (nat k)"
  shows "queryDoT_loop c e msg server tlsConfig k lastErr =
    emit (Attempt k # fst (dot_attempt c e msg server tlsConfig k) @ [Sleep (backoff k)])
      (queryDoT_loop c e msg server tlsConfig (k + 1) (Some err))"
  using assms
  by (subst queryDoT_loop.simps) (auto split: prod.splits option.splits)

lemma queryDoT_loop_failed_rounds:
  assumes "i \<le> k" "k \<le> Retries c"
    "\<forall>j. i \<le> j \<and> j < k \<longrightarrow> snd (snd (dot_attempt c e msg server tlsConfig j)) \<noteq> None"
    "\<forall>j. i \<le> j \<and> j < k \<longrightarrow> \<not> ctx_Done e (nat j)"
  shows "\<exists>lastErr'. queryDoT_loop c e msg server tlsConfig i lastErr =
    emit (failed_rounds (\<lambda>j. fst (dot_attempt c e msg server tlsConfig j)) i k)
      (queryDoT_loop c e msg server tlsConfig k lastErr')"
  using assms
proof (induction k rule: int_ge_induct)
  case base
  then show ?case by (intro exI [of _ lastErr]) simp
next
  case (step k)
  then obtain lastErr' where eq: "queryDoT_loop c e msg server tlsConfig i lastErr =
    emit (failed_rounds (\<lambda>j. fst (dot_attempt c e msg server tlsConfig j)) i k)
      (queryDoT_loop c e msg server tlsConfig k lastErr')"
    by fastforce
  from step.prems step.hyps obtain err
    where err: "snd (snd (dot_attempt c e msg server tlsConfig k)) = Some err"
    by fastforce
  have "queryDoT_loop c e msg server tlsConfig k lastErr' =
    emit (Attempt k # fst (dot_attempt c e msg server tlsConfig k) @ [Sleep (backoff k)])
      (queryDoT_loop c e msg server tlsConfig (k + 1) (Some err))"
    using step.prems step.hyps err by (intro queryDoT_loop_failed_round) auto
  then show ?case
    using eq step.hyps by (intro exI [of _ "Some err"]) (simp add: emit_emit failed_rounds_step)
qed

lemma queryDoT_loop_cancelled:
  assumes "k < Retries c" "snd (snd (dot_attempt c e msg server tlsConfig k)) \<noteq> None"
    "ctx_Done e (nat k)"
  shows "queryDoT_loop c e msg server tlsConfig k lastErr =
    (Attempt k # fst (dot_attempt c e msg server tlsConfig k) @ [Cancelled (backoff k)], None,
     Some (ctx_Err e))"
  using assms
  by (subst queryDoT_loop.simps) (auto split: prod.splits option.splits)

lemma queryDoH_loop_failed_round:
  assumes "k < Retries c" "doh_attempt_fails e httpClient url k" "\<not> ctx_Done e (nat k)"
  shows "\<exists>err. queryDoH_loop c e httpClient url k lastErr =
    emit (doh_failed_round e httpClient url k)
      (queryDoH_loop c e httpClient url (k + 1) (Some err))"
  using assms
  by (subst queryDoH_loop.simps)
    (auto simp: doh_attempt_fails_def doh_failed_round_def dohRequest_def Let_def emit_def
      split: option.splits sum.splits)

lemma queryDoH_loop_failed_rounds:
  assumes "i \<le> k" "k \<le> Retries c"
    "\<forall>j. i \<le> j \<and> j < k \<longrightarrow> doh_attempt_fails e httpClient url j"
    "\<forall>j. i \<le> j \<and> j < k \<longrightarrow> \<not> ctx_Done e (nat j)"
  shows "\<exists>lastErr'. queryDoH_loop c e httpClient url i lastErr =
    emit (concat (map (doh_failed_round e httpClient url) [i..k - 1]))
      (queryDoH_loop c e httpClient url k lastErr')"
  using assms
proof (induction k rule: int_ge_induct)
  case base
  then show ?case by (intro exI [of _ lastErr]) simp
next
  case (step k)
  then obtain lastErr' where eq: "queryDoH_loop c e httpClient url i lastErr =
    emit (concat (map (doh_failed_round e httpClient url) [i..k - 1]))
      (queryDoH_loop c e httpClient url k lastErr')"
    by fastforce
  obtain err where "queryDoH_loop c e httpClient url k lastErr' =
    emit (doh_failed_round e httpClient url k)
      (queryDoH_loop c e httpClient url (k + 1) (Some err))"
    using step.prems step.hyps queryDoH_loop_failed_round [of k c e httpClient url lastErr']
    by auto
  then show ?case
    using eq step.hyps by (intro exI [of _ "Some err"]) (simp add: emit_emit upto_rec2)
qed

lemma queryDoH_loop_cancelled:
  assumes "k < Retries c" "NewRequestWithContext e (nat k) ''GET'' url = None"
    "Do e (nat k) httpClient (dohRequest url) = Inl err" "ctx_Done e (nat k)"
  shows "queryDoH_loop c e httpClient url k lastErr =
    ([Attempt k, HTTPDo (dohRequest url), Cancelled (backoff k)], None, Some (ctx_Err e))"
  using assms
  by (subst queryDoH_loop.simps) (simp add: dohRequest_def Let_def)

lemma timing_doh_failed_round:
  "timing (doh_failed_round e httpClient url i) =
    Attempt i # (case Do e (nat i) httpClient (dohRequest url) of
                   Inl err \<Rightarrow> [Sleep (100 * Millisecond * (i + 1))]
                 | Inr resp \<Rightarrow> [])"
  by (simp add: doh_failed_round_def backoff_def mult.commute split: sum.splits)

text \<open>
  The retry loop \<^verbatim>\<open>queryDoH\<close> enters once the query is packed, the URL parsed and
  the HTTP client at hand.
\<close>

lemma queryDoH_enters_loop:
  assumes "Pack e msg = Inr msgBytes"
    and "url_Parse e (if \<not> HasPrefix server ''http'' then ''https://'' @ server @ ''/dns-query''
                      else server) = Inr u"
    and "(\<exists>client. HTTPClient c = Some client \<and> httpClient = ConfiguredClient client)
      \<or> (HTTPClient c = None \<and> ProxyType c = NoProxy
          \<and> httpClient = BuiltClient (TLSConfig c) None (Timeout c))
      \<or> (HTTPClient c = None \<and> ProxyType c \<noteq> NoProxy
          \<and> (\<exists>proxyURL. getProxyURL c e = Inr proxyURL
                \<and> httpClient = BuiltClient (TLSConfig c) (Some proxyURL) (Timeout c)))"
  shows "queryDoH c e msg server =
    queryDoH_loop c e httpClient
      (URL_String e (u\<lparr>RawQuery :=
         Values_Encode e ((url_ParseQuery e (RawQuery u))(''dns'' \<mapsto> [EncodeToString msgBytes]))\<rparr>))
      0 None"
proof (cases "HasPrefix server ''http''")
  case True
  with assms show ?thesis
    by (auto simp add: queryDoH_def Let_def)
next
  case False
  with assms(2) have "url_Parse e (''https://'' @ server @ ''/dns-query'') = Inr u"
    by simp
  with False assms(1,3) show ?thesis
    by (auto simp add: queryDoH_def Let_def simp del: append.simps)
qed

lemma queryUDPTCP_cancelled:
  assumes "0 \<le> k" "k < Retries c"
    and fail: "\<forall>i. 0 \<le> i \<and> i \<le> k \<longrightarrow> snd (snd (udptcp_attempt c e msg server i)) \<noteq> None"
    and nocancel: "\<forall>i. 0 \<le> i \<and> i < k \<longrightarrow> \<not> ctx_Done e (nat i)"
    and cancel: "ctx_Done e (nat k)"
  shows "snd (queryUDPTCP c e msg server) = (None, Some (ctx_Err e))
    \<and> timing (fst (queryUDPTCP c e msg server)) =
        concat (map (\<lambda>i. [Attempt i, Sleep (100 * Millisecond * (i + 1))]) [0..k - 1])
        @ [Attempt k, Cancelled (100 * Millisecond * (k + 1))]"
proof -
  let ?trs = "\<lambda>j. fst (udptcp_attempt c e msg server j)"
  have sched: "timing (failed_rounds ?trs 0 k) =
      concat (map (\<lambda>i. [Attempt i, Sleep (100 * Millisecond * (i + 1))]) [0..k - 1])"
    by (rule timing_failed_rounds) simp
  from assms obtain lastErr' where
    "queryUDPTCP_loop c e msg server 0 None =
      emit (failed_rounds ?trs 0 k) (queryUDPTCP_loop c e msg server k lastErr')"
    using queryUDPTCP_loop_failed_rounds [of 0 k c e msg server None] by auto
  moreover have "queryUDPTCP_loop c e msg server k lastErr' =
      (Attempt k # ?trs k @ [Cancelled (backoff k)], None, Some (ctx_Err e))"
    using assms by (intro queryUDPTCP_loop_cancelled) auto
  ultimately have eq: "queryUDPTCP c e msg server =
      emit (failed_rounds ?trs 0 k)
        (Attempt k # ?trs k @ [Cancelled (backoff k)], None, Some (ctx_Err e))"
    by (simp add: queryUDPTCP_def)
  show ?thesis
    by (simp add: eq sched) (simp add: backoff_def mult.commute)
qed

lemma queryDoT_cancelled:
  assumes "0 \<le> k" "k < Retries c"
    and fail: "\<forall>i. 0 \<le> i \<and> i \<le> k \<longrightarrow>
      snd (snd (dot_attempt c e msg
        (if \<not> Contains server '':'' then server @ '':853'' else server)
        (case TLSConfig c of None \<Rightarrow> zero_tls_Config | Some t \<Rightarrow> t) i)) \<noteq> None"
    and nocancel: "\<forall>i. 0 \<le> i \<and> i < k \<longrightarrow> \<not> ctx_Done e (nat i)"
    and cancel: "ctx_Done e (nat k)"
  shows "snd (queryDoT c e msg server) = (None, Some (ctx_Err e))
    \<and> timing (fst (queryDoT c e msg server)) =
        concat (map (\<lambda>i. [Attempt i, Sleep (100 * Millisecond * (i + 1))]) [0..k - 1])
        @ [Attempt k, Cancelled (100 * Millisecond * (k + 1))]"
proof -
  define target where "target = (if \<not> Contains server '':'' then server @ '':853'' else server)"
  define tlsConfig where
    "tlsConfig = (case TLSConfig c of None \<Rightarrow> zero_tls_Config | Some t \<Rightarrow> t)"
  let ?trs = "\<lambda>j. fst (dot_attempt c e msg target tlsConfig j)"
  have fail': "\<forall>i. 0 \<le> i \<and> i \<le> k \<longrightarrow> snd (snd (dot_attempt c e msg target tlsConfig i)) \<noteq> None"
    using fail unfolding target_def tlsConfig_def .
  have sched: "timing (failed_rounds ?trs 0 k) =
      concat (map (\<lambda>i. [Attempt i, Sleep (100 * Millisecond * (i + 1))]) [0..k - 1])"
    by (rule timing_failed_rounds) simp
  from assms(1,2) fail' nocancel obtain lastErr' where
    "queryDoT_loop c e msg target tlsConfig 0 None =
      emit (failed_rounds ?trs 0 k) (queryDoT_loop c e msg target tlsConfig k lastErr')"
    using queryDoT_loop_failed_rounds [of 0 k c e msg target tlsConfig None] by auto
  moreover have "queryDoT_loop c e msg target tlsConfig k lastErr' =
      (Attempt k # ?trs k @ [Cancelled (backoff k)], None, Some (ctx_Err e))"
    using assms(1,2) fail' cancel by (intro queryDoT_loop_cancelled) auto
  moreover have "queryDoT c e msg server = queryDoT_loop c e msg target tlsConfig 0 None"
    by (simp add: queryDoT_def target_def tlsConfig_def Let_def)
  ultimately have eq: "queryDoT c e msg server =
      emit (failed_rounds ?trs 0 k)
        (Attempt k # ?trs k @ [Cancelled (backoff k)], None, Some (ctx_Err e))"
    by simp
  show ?thesis
    by (simp add: eq sched) (simp add: backoff_def mult.commute)
qed

lemma queryDoH_loop_cancelled_run:
  assumes "0 \<le> k" "k < Retries c"
    and fail: "\<forall>i. 0 \<le> i \<and> i < k \<longrightarrow> doh_attempt_fails e httpClient url i"
    and new: "NewRequestWithContext e (nat k) ''GET'' url = None"
    and unsent: "Do e (nat k) httpClient (dohRequest url) = Inl err"
    and nocancel: "\<forall>i. 0 \<le> i \<and> i < k \<longrightarrow> \<not> ctx_Done e (nat i)"
    and cancel: "ctx_Done e (nat k)"
  shows "snd (queryDoH_loop c e httpClient url 0 None) = (None, Some (ctx_Err e))
    \<and> timing (fst (queryDoH_loop c e httpClient url 0 None)) =
        concat (map (\<lambda>i. Attempt i #
            (case Do e (nat i) httpClient (dohRequest url) of
               Inl err \<Rightarrow> [Sleep (100 * Millisecond * (i + 1))]
             | Inr resp \<Rightarrow> [])) [0..k - 1])
        @ [Attempt k, Cancelled (100 * Millisecond * (k + 1))]"
proof -
  from assms(1,2) fail nocancel obtain lastErr' where
    "queryDoH_loop c e httpClient url 0 None =
      emit (concat (map (doh_failed_round e httpClient url) [0..k - 1]))
        (queryDoH_loop c e httpClient url k lastErr')"
    using queryDoH_loop_failed_rounds [of 0 k c e httpClient url None] by auto
  moreover have "queryDoH_loop c e httpClient url k lastErr' =
      ([Attempt k, HTTPDo (dohRequest url), Cancelled (backoff k)], None, Some (ctx_Err e))"
    using assms(2) new unsent cancel by (rule queryDoH_loop_cancelled)
  ultimately have eq: "queryDoH_loop c e httpClient url 0 None =
      emit (concat (map (doh_failed_round e httpClient url) [0..k - 1]))
        ([Attempt k, HTTPDo (dohRequest url), Cancelled (backoff k)], None, Some (ctx_Err e))"
    by simp
  have "timing (concat (map (doh_failed_round e httpClient url) [0..k - 1])) =
      concat (map (\<lambda>i. Attempt i #
            (case Do e (nat i) httpClient (dohRequest url) of
               Inl err \<Rightarrow> [Sleep (100 * Millisecond * (i + 1))]
             | Inr resp \<Rightarrow> [])) [0..k - 1])"
    by (rule timing_concat_map) (rule timing_doh_failed_round)
  then show ?thesis
    by (simp add: eq) (simp add: backoff_def mult.commute)
qed

text \<open>
  Claim C5. If the context is cancelled during the backoff wait after a failed attempt
  \<open>k\<close> (so \<open>k\<close> is below the retry count and the waits before ran their length), a
  single-server query returns what \<^verbatim>\<open>ctx.Err()\<close> gives, whatever the error of attempt
  \<open>k\<close> was, and the cancelled wait is its last event: the wait is not completed and no
  further attempt runs. This holds on each transport: for the UDP/TCP query and the DoT
  query, which wait after every failed attempt, and for the DoH query, which waits only
  after a request that could not be sent, the attempts before having failed in any way.
\<close>

theorem query_cancelled_in_backoff:
  assumes k: "0 \<le> k" "k < Retries c"
    and nocancel: "\<forall>i. 0 \<le> i \<and> i < k \<longrightarrow> \<not> ctx_Done e (nat i)"
    and cancel: "ctx_Done e (nat k)"
  shows
    "((\<forall>i. 0 \<le> i \<and> i \<le> k \<longrightarrow> snd (snd (udptcp_attempt c e msg server i)) \<noteq> None) \<longrightarrow>
        snd (queryUDPTCP c e msg server) = (None, Some (ctx_Err e))
        \<and> timing (fst (queryUDPTCP c e msg server)) =
            concat (map (\<lambda>i. [Attempt i, Sleep (100 * Millisecond * (i + 1))]) [0..k - 1])
            @ [Attempt k, Cancelled (100 * Millisecond * (k + 1))])
     \<and> ((\<forall>i. 0 \<le> i \<and> i \<le> k \<longrightarrow>
            snd (snd (dot_attempt c e msg
              (if \<not> Contains server '':'' then server @ '':853'' else server)
              (case TLSConfig c of None \<Rightarrow> zero_tls_Config | Some t \<Rightarrow> t) i)) \<noteq> None) \<longrightarrow>
        snd (queryDoT c e msg server) = (None, Some (ctx_Err e))
        \<and> timing (fst (queryDoT c e msg server)) =
            concat (map (\<lambda>i. [Attempt i, Sleep (100 * Millisecond * (i + 1))]) [0..k - 1])
            @ [Attempt k, Cancelled (100 * Millisecond * (k + 1))])
     \<and> (\<forall>msgBytes u httpClient url err.
          Pack e msg = Inr msgBytes
          \<and> url_Parse e (if \<not> HasPrefix server ''http'' then ''https://'' @ server @ ''/dns-query''
                          else server) = Inr u
          \<and> ((\<exists>client. HTTPClient c = Some client \<and> httpClient = ConfiguredClient client)
              \<or> (HTTPClient c = None \<and> ProxyType c = NoProxy
                  \<and> httpClient = BuiltClient (TLSConfig c) None (Timeout c))
              \<or> (HTTPClient c = None \<and> ProxyType c \<noteq> NoProxy
                  \<and> (\<exists>proxyURL. getProxyURL c e = Inr proxyURL
                        \<and> httpClient = BuiltClient (TLSConfig c) (Some proxyURL) (Timeout c))))
          \<and> url = URL_String e (u\<lparr>RawQuery :=
                Values_Encode e
                  ((url_ParseQuery e (RawQuery u))(''dns'' \<mapsto> [EncodeToString msgBytes]))\<rparr>)
          \<and> (\<forall>i. 0 \<le> i \<and> i < k \<longrightarrow> doh_attempt_fails e httpClient url i)
          \<and> NewRequestWithContext e (nat k) ''GET'' url = None
          \<and> Do e (nat k) httpClient (dohRequest url) = Inl err \<longrightarrow>
        snd (queryDoH c e msg server) = (None, Some (ctx_Err e))
        \<and> timing (fst (queryDoH c e msg server)) =
            concat (map (\<lambda>i. Attempt i #
                (case Do e (nat i) httpClient (dohRequest url) of
                   Inl err \<Rightarrow> [Sleep (100 * Millisecond * (i + 1))]
                 | Inr resp \<Rightarrow> [])) [0..k - 1])
            @ [Attempt k, Cancelled (100 * Millisecond * (k + 1))])"
proof (intro conjI)
  show "(\<forall>i. 0 \<le> i \<and> i \<le> k \<longrightarrow> snd (snd (udptcp_attempt c e msg server i)) \<noteq> None) \<longrightarrow>
        snd (queryUDPTCP c e msg server) = (None, Some (ctx_Err e))
        \<and> timing (fst (queryUDPTCP c e msg server)) =
            concat (map (\<lambda>i. [Attempt i, Sleep (100 * Millisecond * (i + 1))]) [0..k - 1])
            @ [Attempt k, Cancelled (100 * Millisecond * (k + 1))]"
    using queryUDPTCP_cancelled [OF k _ nocancel cancel] by blast
  show "(\<forall>i. 0 \<le> i \<and> i \<le> k \<longrightarrow>
            snd (snd (dot_attempt c e msg
              (if \<not> Contains server '':'' then server @ '':853'' else server)
              (case TLSConfig c of None \<Rightarrow> zero_tls_Config | Some t \<Rightarrow> t) i)) \<noteq> None) \<longrightarrow>
        snd (queryDoT c e msg server) = (None, Some (ctx_Err e))
        \<and> timing (fst (queryDoT c e msg server)) =
            concat (map (\<lambda>i. [Attempt i, Sleep (100 * Millisecond * (i + 1))]) [0..k - 1])
            @ [Attempt k, Cancelled (100 * Millisecond * (k + 1))]"
    using queryDoT_cancelled [OF k _ nocancel cancel] by blast
  show "\<forall>msgBytes u httpClient url err.
          Pack e msg = Inr msgBytes
          \<and> url_Parse e (if \<not> HasPrefix server ''http'' then ''https://'' @ server @ ''/dns-query''
                          else server) = Inr u
          \<and> ((\<exists>client. HTTPClient c = Some client \<and> httpClient = ConfiguredClient client)
              \<or> (HTTPClient c = None \<and> ProxyType c = NoProxy
                  \<and> httpClient = BuiltClient (TLSConfig c) None (Timeout c))
              \<or> (HTTPClient c = None \<and> ProxyType c \<noteq> NoProxy
                  \<and> (\<exists>proxyURL. getProxyURL c e = Inr proxyURL
                        \<and> httpClient = BuiltClient (TLSConfig c) (Some proxyURL) (Timeout c))))
          \<and> url = URL_String e (u\<lparr>RawQuery :=
                Values_Encode e
                  ((url_ParseQuery e (RawQuery u))(''dns'' \<mapsto> [EncodeToString msgBytes]))\<rparr>)
          \<and> (\<forall>i. 0 \<le> i \<and> i < k \<longrightarrow> doh_attempt_fails e httpClient url i)
          \<and> NewRequestWithContext e (nat k) ''GET'' url = None
          \<and> Do e (nat k) httpClient (dohRequest url) = Inl err \<longrightarrow>
        snd (queryDoH c e msg server) = (None, Some (ctx_Err e))
        \<and> timing (fst (queryDoH c e msg server)) =
            concat (map (\<lambda>i. Attempt i #
                (case Do e (nat i) httpClient (dohRequest url) of
                   Inl err \<Rightarrow> [Sleep (100 * Millisecond * (i + 1))]
                 | Inr resp \<Rightarrow> [])) [0..k - 1])
            @ [Attempt k, Cancelled (100 * Millisecond * (k + 1))]"
  proof (intro allI impI, elim conjE)
    fix msgBytes u httpClient url err
    assume pack: "Pack e msg = Inr msgBytes"
      and parse: "url_Parse e (if \<not> HasPrefix server ''http''
          then ''https://'' @ server @ ''/dns-query'' else server) = Inr u"
      and client: "(\<exists>client. HTTPClient c = Some client \<and> httpClient = ConfiguredClient client)
          \<or> (HTTPClient c = None \<and> ProxyType c = NoProxy
              \<and> httpClient = BuiltClient (TLSConfig c) None (Timeout c))
          \<or> (HTTPClient c = None \<and> ProxyType c \<noteq> NoProxy
              \<and> (\<exists>proxyURL. getProxyURL c e = Inr proxyURL
                    \<and> httpClient = BuiltClient (TLSConfig c) (Some proxyURL) (Timeout c)))"
      and url: "url = URL_String e (u\<lparr>RawQuery :=
          Values_Encode e
            ((url_ParseQuery e (RawQuery u))(''dns'' \<mapsto> [EncodeToString msgBytes]))\<rparr>)"
      and fail: "\<forall>i. 0 \<le> i \<and> i < k \<longrightarrow> doh_attempt_fails e httpClient url i"
      and new: "NewRequestWithContext e (nat k) ''GET'' url = None"
      and unsent: "Do e (nat k) httpClient (dohRequest url) = Inl err"
    have "queryDoH c e msg server = queryDoH_loop c e httpClient url 0 None"
      unfolding url using pack parse client by (rule queryDoH_enters_loop)
    with queryDoH_loop_cancelled_run [OF k fail new unsent nocancel cancel]
    show "snd (queryDoH c e msg server) = (None, Some (ctx_Err e))
        \<and> timing (fst (queryDoH c e msg server)) =
            concat (map (\<lambda>i. Attempt i #
                (case Do e (nat i) httpClient (dohRequest url) of
                   Inl err \<Rightarrow> [Sleep (100 * Millisecond * (i + 1))]
                 | Inr resp \<Rightarrow> [])) [0..k - 1])
            @ [Attempt k, Cancelled (100 * Millisecond * (k + 1))]"
      by simp
  qed
qed

text \<open>
  The default retry count of three, a server that never answers, and a deadline that
  passes during the second wait: on each of the three transports the query returns the
  deadline error after two attempts.
\<close>

theorem query_cancelled_in_backoff_witness:
  "snd (queryUDPTCP defaultConfig (cancelled_at 1 quiet_env) example_query ''8.8.8.8:53'') =
      (None, Some DeadlineExceeded)
   \<and> timing (fst (queryUDPTCP defaultConfig (cancelled_at 1 quiet_env) example_query
        ''8.8.8.8:53'')) =
      [Attempt 0, Sleep 100000000, Attempt 1, Cancelled 200000000]
   \<and> snd (queryDoT (config (New [WithProtocol DoT])) (cancelled_at 1 quiet_env) example_query
        ''9.9.9.9'') =
      (None, Some DeadlineExceeded)
   \<and> timing (fst (queryDoT (config (New [WithProtocol DoT])) (cancelled_at 1 quiet_env)
        example_query ''9.9.9.9'')) =
      [Attempt 0, Sleep 100000000, Attempt 1, Cancelled 200000000]
   \<and> snd (queryDoH (config (New [WithProtocol DoH])) (cancelled_at 1 quiet_env) example_query
        ''dns.example.org'') =
      (None, Some DeadlineExceeded)
   \<and> timing (fst (queryDoH (config (New [WithProtocol DoH])) (cancelled_at 1 quiet_env)
        example_query ''dns.example.org'')) =
      [Attempt 0, Sleep 100000000, Attempt 1, Cancelled 200000000]"
proof -
  let ?e = "cancelled_at 1 quiet_env"
  let ?dot = "config (New [WithProtocol DoT])"
  let ?doh = "config (New [WithProtocol DoH])"
  let ?u = "\<lparr>Scheme = ''https'', User = None, Host = ''dns.example.org'', Path = ''/dns-query'',
             RawQuery = [], Fragment = []\<rparr>"
  let ?url = "''https://dns.example.org/dns-query?dns=AAcBAAAB''"
  let ?client = "BuiltClient None None (5 * Second)"
  have c: "Retries defaultConfig = 3" "ProxyType defaultConfig = NoProxy"
    by (simp_all add: defaultConfig_def)
  have dot: "Retries ?dot = 3" "ProxyType ?dot = NoProxy" "TLSConfig ?dot = None"
    by (simp_all add: New_def WithProtocol_def defaultConfig_def Let_def)
  have doh: "Retries ?doh = 3" "ProxyType ?doh = NoProxy" "TLSConfig ?doh = None"
    "HTTPClient ?doh = None" "Timeout ?doh = 5 * Second"
    by (simp_all add: New_def WithProtocol_def defaultConfig_def Let_def)
  have waits: "\<forall>i. 0 \<le> i \<and> i < 1 \<longrightarrow> \<not> ctx_Done ?e (nat i)"
    by (simp add: cancelled_at_def)
  have fires: "ctx_Done ?e (nat 1)"
    by (simp add: cancelled_at_def)
  have err: "ctx_Err ?e = DeadlineExceeded"
    by (simp add: cancelled_at_def quiet_env_def)
  have udp_fails: "\<forall>i. 0 \<le> i \<and> i \<le> 1 \<longrightarrow>
      snd (snd (udptcp_attempt defaultConfig ?e example_query ''8.8.8.8:53'' i)) \<noteq> None"
    by (simp add: udptcp_attempt_def c quiet_env_def cancelled_at_def)
  have dot_fails: "\<forall>i. 0 \<le> i \<and> i \<le> 1 \<longrightarrow>
      snd (snd (dot_attempt ?dot ?e example_query
        (if \<not> Contains ''9.9.9.9'' '':'' then ''9.9.9.9'' @ '':853'' else ''9.9.9.9'')
        (case TLSConfig ?dot of None \<Rightarrow> zero_tls_Config | Some t \<Rightarrow> t) i)) \<noteq> None"
    by (simp add: dot_attempt_def dot(2) quiet_env_def cancelled_at_def)
  have "encodeURL ! 0 = CHR ''A''" "encodeURL ! 1 = CHR ''B''" "encodeURL ! 28 = CHR ''c''"
    by (simp_all add: encodeURL_def)
  then have b64: "EncodeToString [0, 7, 1, 0, 0, 1] = ''AAcBAAAB''"
    by (simp add: Let_def)
  have url: "?url = URL_String ?e (?u\<lparr>RawQuery :=
      Values_Encode ?e
        ((url_ParseQuery ?e (RawQuery ?u))(''dns'' \<mapsto> [EncodeToString [0, 7, 1, 0, 0, 1]]))\<rparr>)"
    unfolding b64
    by (simp add: cancelled_at_def quiet_env_def plain_URL_String_def plain_Values_Encode_def)
  have doh_hyps: "Pack ?e example_query = Inr [0, 7, 1, 0, 0, 1]
      \<and> url_Parse ?e (if \<not> HasPrefix ''dns.example.org'' ''http''
            then ''https://'' @ ''dns.example.org'' @ ''/dns-query'' else ''dns.example.org'') = Inr ?u
      \<and> ((\<exists>client. HTTPClient ?doh = Some client \<and> ?client = ConfiguredClient client)
          \<or> (HTTPClient ?doh = None \<and> ProxyType ?doh = NoProxy
              \<and> ?client = BuiltClient (TLSConfig ?doh) None (Timeout ?doh))
          \<or> (HTTPClient ?doh = None \<and> ProxyType ?doh \<noteq> NoProxy
              \<and> (\<exists>proxyURL. getProxyURL ?doh ?e = Inr proxyURL
                    \<and> ?client = BuiltClient (TLSConfig ?doh) (Some proxyURL) (Timeout ?doh))))
      \<and> ?url = URL_String ?e (?u\<lparr>RawQuery :=
            Values_Encode ?e
              ((url_ParseQuery ?e (RawQuery ?u))(''dns'' \<mapsto> [EncodeToString [0, 7, 1, 0, 0, 1]]))\<rparr>)
      \<and> (\<forall>i. 0 \<le> i \<and> i < 1 \<longrightarrow> doh_attempt_fails ?e ?client ?url i)
      \<and> NewRequestWithContext ?e (nat 1) ''GET'' ?url = None
      \<and> Do ?e (nat 1) ?client (dohRequest ?url) = Inl (errorString ''no route to host'')"
    using url
    by (simp add: doh cancelled_at_def quiet_env_def plain_url_Parse_def HasPrefix_def prefix_code
        doh_attempt_fails_def)
  have k: "0 \<le> (1::int)" "1 < Retries defaultConfig" "1 < Retries ?dot" "1 < Retries ?doh"
    by (simp_all add: c dot doh)
  note udp = query_cancelled_in_backoff [OF k(1) k(2) waits fires,
      of example_query "''8.8.8.8:53''", THEN conjunct1, THEN mp, OF udp_fails]
  note tls = query_cancelled_in_backoff [OF k(1) k(3) waits fires,
      of example_query "''9.9.9.9''", THEN conjunct2, THEN conjunct1, THEN mp, OF dot_fails]
  note https = query_cancelled_in_backoff [OF k(1) k(4) waits fires,
      of example_query "''dns.example.org''", THEN conjunct2, THEN conjunct2, THEN spec,
      THEN spec, THEN spec, THEN spec, THEN spec, THEN mp, OF doh_hyps]
  have "snd (queryUDPTCP defaultConfig ?e example_query ''8.8.8.8:53'') = (None, Some DeadlineExceeded)
      \<and> timing (fst (queryUDPTCP defaultConfig ?e example_query ''8.8.8.8:53'')) =
        [Attempt 0, Sleep 100000000, Attempt 1, Cancelled 200000000]"
    using udp unfolding err by (simp add: c Millisecond_def upto_rec1)
  moreover have "snd (queryDoT ?dot ?e example_query ''9.9.9.9'') = (None, Some DeadlineExceeded)
      \<and> timing (fst (queryDoT ?dot ?e example_query ''9.9.9.9'')) =
        [Attempt 0, Sleep 100000000, Attempt 1, Cancelled 200000000]"
    using tls unfolding err by (simp add: dot Millisecond_def upto_rec1)
  moreover have "snd (queryDoH ?doh ?e example_query ''dns.example.org'') = (None, Some DeadlineExceeded)
      \<and> timing (fst (queryDoH ?doh ?e example_query ''dns.example.org'')) =
        [Attempt 0, Sleep 100000000, Attempt 1, Cancelled 200000000]"
    using https unfolding err
    by (simp add: doh Millisecond_def upto_rec1 cancelled_at_def quiet_env_def)
  ultimately show ?thesis
    by blast
qed

section \<open>The transports return a response or an error\<close>

lemma exchangeWithProxy_result:
  "(\<exists>response. snd (exchangeWithProxy c e i msg server) = (Some response, None))
    \<or> (\<exists>err. snd (exchangeWithProxy c e i msg server) = (None, Some err))"
  by (simp add: exchangeWithProxy_def split: sum.splits option.splits)

lemma exchangeDoTWithProxy_result:
  "(\<exists>response. snd (exchangeDoTWithProxy c e i msg server tlsConfig) = (Some response, None))
    \<or> (\<exists>err. snd (exchangeDoTWithProxy c e i msg server tlsConfig) = (None, Some err))"
  by (simp add: exchangeDoTWithProxy_def split: sum.splits option.splits)

lemma udptcp_attempt_result:
  "(\<exists>response. snd (udptcp_attempt c e msg server i) = (Some response, None))
    \<or> (\<exists>err. snd (udptcp_attempt c e msg server i) = (None, Some err))"
  using exchangeWithProxy_result [of c e "nat i" msg server]
  by (simp add: udptcp_attempt_def split: sum.splits)

lemma dot_attempt_result:
  "(\<exists>response. snd (dot_attempt c e msg server tlsConfig i) = (Some response, None))
    \<or> (\<exists>err. snd (dot_attempt c e msg server tlsConfig i) = (None, Some err))"
  using exchangeDoTWithProxy_result [of c e "nat i" msg server tlsConfig]
  by (simp add: dot_attempt_def split: sum.splits)

lemma queryUDPTCP_loop_not_nil:
  "i \<le> Retries c \<or> lastErr \<noteq> None \<Longrightarrow>
    snd (queryUDPTCP_loop c e msg server i lastErr) \<noteq> (None, None)"
proof (induction "nat (Retries c + 1 - i)" arbitrary: i lastErr)
  case 0
  then show ?case by (simp add: queryUDPTCP_loop_exit)
next
  case (Suc n)
  then have "n = nat (Retries c + 1 - (i + 1))" "i \<le> Retries c"
    by simp_all
  from Suc.hyps(1) [OF this(1)] this(2) udptcp_attempt_result [of c e msg server i]
  show ?case
    by (subst queryUDPTCP_loop.simps) (auto split: prod.splits option.splits)
qed

lemma queryDoT_loop_not_nil:
  "i \<le> Retries c \<or> lastErr \<noteq> None \<Longrightarrow>
    snd (queryDoT_loop c e msg server tlsConfig i lastErr) \<noteq> (None, None)"
proof (induction "nat (Retries c + 1 - i)" arbitrary: i lastErr)
  case 0
  then show ?case by (simp add: queryDoT_loop_exit)
next
  case (Suc n)
  then have "n = nat (Retries c + 1 - (i + 1))" "i \<le> Retries c"
    by simp_all
  from Suc.hyps(1) [OF this(1)] this(2) dot_attempt_result [of c e msg server tlsConfig i]
  show ?case
    by (subst queryDoT_loop.simps) (auto split: prod.splits option.splits)
qed

lemma queryDoH_loop_not_nil:
  "i \<le> Retries c \<or> lastErr \<noteq> None \<Longrightarrow>
    snd (queryDoH_loop c e httpClient url i lastErr) \<noteq> (None, None)"
proof (induction "nat (Retries c + 1 - i)" arbitrary: i lastErr)
  case 0
  then show ?case by (simp add: queryDoH_loop_exit)
next
  case (Suc n)
  then have "n = nat (Retries c + 1 - (i + 1))" "i \<le> Retries c"
    by simp_all
  from Suc.hyps(1) [OF this(1)] this(2)
  show ?case
    by (subst queryDoH_loop.simps) (auto split: prod.splits option.splits sum.splits simp: Let_def)
qed

lemma queryServer_returns:
  assumes "0 \<le> Retries c"
  shows "\<exists>res err. snd (queryServer c e domain qtype server) = Returns (res, err)"
proof -
  have udp: "snd (queryUDPTCP c e msg server) \<noteq> (None, None)" for msg
    using assms by (simp add: queryUDPTCP_def queryUDPTCP_loop_not_nil)
  have dot: "snd (queryDoT c e msg server) \<noteq> (None, None)" for msg
    using assms by (simp add: queryDoT_def Let_def queryDoT_loop_not_nil)
  have doh: "snd (queryDoH c e msg server) \<noteq> (None, None)" for msg
    using assms
    by (simp add: queryDoH_def Let_def queryDoH_loop_not_nil split: sum.splits option.splits)
  define finish :: "(Msg option \<times> error option) traced
      \<Rightarrow> (QueryResult option \<times> error option) exec traced"
    where "finish = (\<lambda>(tr, response, err).
            case err of
              Some err \<Rightarrow>
                (tr, Returns (Some \<lparr>QueryResult.Domain = domain, QueryResult.Type = qtype,
                                    Records = [], Error = Some err, Server = server\<rparr>,
                              Some err))
            | None \<Rightarrow>
                (case response of
                   None \<Rightarrow> (tr, Panics)
                 | Some response \<Rightarrow>
                     (tr, Returns (Some \<lparr>QueryResult.Domain = domain,
                                         QueryResult.Type = qtype,
                                         Records = map answerRecord (Answer response),
                                         Error = None, Server = server\<rparr>,
                                   None))))"
  have fin: "\<exists>res err. snd (finish x) = Returns (res, err)" if "snd x \<noteq> (None, None)" for x
    using that by (cases x) (auto simp: finish_def split: option.splits)
  have "queryServer c e domain qtype server =
      (let msg = \<lparr>MsgId = dns_Id e, RecursionDesired = True,
                 Question = [(dns_Fqdn e domain, qtype)], Answer = []\<rparr>
       in if Protocol c = UDP \<or> Protocol c = TCP then finish (queryUDPTCP c e msg server)
          else if Protocol c = DoT then finish (queryDoT c e msg server)
          else if Protocol c = DoH then finish (queryDoH c e msg server)
          else ([], Returns (None, Some (errorString (''unsupported protocol: '' @ Protocol c)))))"
    unfolding queryServer_def finish_def Let_def ..
  then show ?thesis
    using fin [OF udp] fin [OF dot] fin [OF doh] by (simp add: Let_def)
qed

section \<open>What a goroutine sends\<close>

lemma queryServer_result:
  assumes "snd (queryServer c e domain qtype server) = Returns (res, err)"
  shows "(res = None \<and> err \<noteq> None)
    \<or> (\<exists>records. res = Some \<lparr>QueryResult.Domain = domain, QueryResult.Type = qtype,
          Records = records, Error = err, Server = server\<rparr> \<and> (err \<noteq> None \<longrightarrow> records = []))"
proof -
  define finish :: "(Msg option \<times> error option) traced
      \<Rightarrow> (QueryResult option \<times> error option) exec traced"
    where "finish = (\<lambda>(tr, response, err).
            case err of
              Some err \<Rightarrow>
                (tr, Returns (Some \<lparr>QueryResult.Domain = domain, QueryResult.Type = qtype,
                                    Records = [], Error = Some err, Server = server\<rparr>,
                              Some err))
            | None \<Rightarrow>
                (case response of
                   None \<Rightarrow> (tr, Panics)
                 | Some response \<Rightarrow>
                     (tr, Returns (Some \<lparr>QueryResult.Domain = domain,
                                         QueryResult.Type = qtype,
                                         Records = map answerRecord (Answer response),
                                         Error = None, Server = server\<rparr>,
                                   None))))"
  have fin: "\<exists>records. res = Some \<lparr>QueryResult.Domain = domain, QueryResult.Type = qtype,
          Records = records, Error = err, Server = server\<rparr> \<and> (err \<noteq> None \<longrightarrow> records = [])"
    if "snd (finish x) = Returns (res, err)" for x
    using that by (cases x) (auto simp: finish_def split: option.splits)
  have "queryServer c e domain qtype server =
      (let msg = \<lparr>MsgId = dns_Id e, RecursionDesired = True,
                 Question = [(dns_Fqdn e domain, qtype)], Answer = []\<rparr>
       in if Protocol c = UDP \<or> Protocol c = TCP then finish (queryUDPTCP c e msg server)
          else if Protocol c = DoT then finish (queryDoT c e msg server)
          else if Protocol c = DoH then finish (queryDoH c e msg server)
          else ([], Returns (None, Some (errorString (''unsupported protocol: '' @ Protocol c)))))"
    unfolding queryServer_def finish_def Let_def ..
  then show ?thesis
    using assms fin by (auto simp: Let_def split: if_splits)
qed

lemma goroutine_substitutes:
  assumes "snd (queryServer c e domain qtype srv) = Returns (res, Some err)"
  shows "goroutine c e domain qtype srv =
    Returns \<lparr>QueryResult.Domain = domain, QueryResult.Type = qtype, Records = [],
             Error = Some err, Server = srv\<rparr>"
  using queryServer_result [OF assms] assms by (auto simp: goroutine_def)

lemma goroutine_fields:
  assumes "goroutine c e domain qtype srv = Returns res"
  shows "QueryResult.Domain res = domain \<and> QueryResult.Type res = qtype \<and> Server res = srv"
proof (cases "snd (queryServer c e domain qtype srv)")
  case (Returns x)
  then obtain r err where x: "snd (queryServer c e domain qtype srv) = Returns (r, err)"
    by (cases x) simp
  from queryServer_result [OF x] assms x show ?thesis
    by (auto simp: goroutine_def)
qed (use assms in \<open>simp_all add: goroutine_def\<close>)

lemma goroutine_Error:
  assumes "goroutine c e domain qtype srv = Returns res"
  shows "\<exists>r. snd (queryServer c e domain qtype srv) = Returns (r, Error res)"
proof (cases "snd (queryServer c e domain qtype srv)")
  case (Returns x)
  then obtain r err where x: "snd (queryServer c e domain qtype srv) = Returns (r, err)"
    by (cases x) simp
  from queryServer_result [OF x] assms x show ?thesis
    by (auto simp: goroutine_def)
qed (use assms in \<open>simp_all add: goroutine_def\<close>)

lemma goroutine_returns:
  "0 \<le> Retries c \<Longrightarrow> \<exists>res. goroutine c e domain qtype srv = Returns res"
  using queryServer_returns [of c e domain qtype srv]
  by (auto simp: goroutine_def split: option.splits)

section \<open>The collection loop\<close>

lemma collectIPs_invariant:
  assumes "distinct allIPs" "\<forall>ip \<in> set allIPs. ipSet ip = Some True"
    and "collectIPs ParseIP qtype records (ipSet, allIPs) = (ipSet', allIPs')"
  shows "distinct allIPs' \<and> (\<forall>ip \<in> set allIPs'. ipSet' ip = Some True)
    \<and> set allIPs' \<subseteq> set allIPs \<union>
        {ip. (qtype = TypeA \<or> qtype = TypeAAAA) \<and> ParseIP ip \<and> ip \<in> Value ` set records}"
  using assms
proof (induction records arbitrary: ipSet allIPs)
  case Nil
  then show ?case by simp
next
  case (Cons r rs)
  show ?case
  proof (cases "(qtype = TypeA \<or> qtype = TypeAAAA) \<and> ParseIP (Value r)
      \<and> \<not> (case ipSet (Value r) of None \<Rightarrow> False | Some b \<Rightarrow> b)")
    case True
    then have new: "Value r \<notin> set allIPs"
      using Cons.prems(2) by auto
    from True Cons.prems(3)
    have "collectIPs ParseIP qtype rs (ipSet(Value r \<mapsto> True), allIPs @ [Value r])
        = (ipSet', allIPs')"
      by simp
    moreover have "distinct (allIPs @ [Value r])"
      using new Cons.prems(1) by simp
    moreover have "\<forall>ip \<in> set (allIPs @ [Value r]). (ipSet(Value r \<mapsto> True)) ip = Some True"
      using Cons.prems(2) by simp
    ultimately have "distinct allIPs' \<and> (\<forall>ip \<in> set allIPs'. ipSet' ip = Some True)
      \<and> set allIPs' \<subseteq> set (allIPs @ [Value r]) \<union>
        {ip. (qtype = TypeA \<or> qtype = TypeAAAA) \<and> ParseIP ip \<and> ip \<in> Value ` set rs}"
      using Cons.IH by blast
    with True show ?thesis
      by auto
  next
    case False
    with Cons.prems(3) have "collectIPs ParseIP qtype rs (ipSet, allIPs) = (ipSet', allIPs')"
      by (auto split: if_splits)
    from Cons.IH [OF Cons.prems(1,2) this] show ?thesis
      by auto
  qed
qed

lemma collect_Results:
  "Results (fst (collect ParseIP qtype rs (result, ipSet))) = Results result @ rs"
  by (induction rs arbitrary: result ipSet) (auto simp: Let_def split: prod.splits)

lemma collect_invariant:
  assumes "distinct (AllIPs result)" "\<forall>ip \<in> set (AllIPs result). ipSet ip = Some True"
  shows "distinct (AllIPs (fst (collect ParseIP qtype rs (result, ipSet))))
    \<and> (\<forall>ip \<in> set (AllIPs (fst (collect ParseIP qtype rs (result, ipSet)))).
          snd (collect ParseIP qtype rs (result, ipSet)) ip = Some True)
    \<and> set (AllIPs (fst (collect ParseIP qtype rs (result, ipSet)))) \<subseteq> set (AllIPs result) \<union>
        {ip. (qtype = TypeA \<or> qtype = TypeAAAA) \<and> ParseIP ip
          \<and> (\<exists>res \<in> set rs. Error res = None \<and> ip \<in> Value ` set (Records res))}"
  using assms
proof (induction rs arbitrary: result ipSet)
  case Nil
  then show ?case by simp
next
  case (Cons res rest)
  let ?result = "result\<lparr>Results := Results result @ [res]\<rparr>"
  show ?case
  proof (cases "Error res = None")
    case True
    obtain ipSet' allIPs' where
      ips: "collectIPs ParseIP qtype (Records res) (ipSet, AllIPs ?result) = (ipSet', allIPs')"
      by (cases "collectIPs ParseIP qtype (Records res) (ipSet, AllIPs ?result)")
    from collectIPs_invariant [OF _ _ ips] Cons.prems
    have inv: "distinct allIPs'" "\<forall>ip \<in> set allIPs'. ipSet' ip = Some True"
      "set allIPs' \<subseteq> set (AllIPs result) \<union>
        {ip. (qtype = TypeA \<or> qtype = TypeAAAA) \<and> ParseIP ip \<and> ip \<in> Value ` set (Records res)}"
      by simp_all
    have step: "collect ParseIP qtype (res # rest) (result, ipSet) =
        collect ParseIP qtype rest (?result\<lparr>AllIPs := allIPs'\<rparr>, ipSet')"
      using True ips by (simp add: Let_def)
    from Cons.IH [of "?result\<lparr>AllIPs := allIPs'\<rparr>" ipSet'] inv True show ?thesis
      unfolding step by (auto 0 3)
  next
    case False
    then have step: "collect ParseIP qtype (res # rest) (result, ipSet) =
        collect ParseIP qtype rest (?result, ipSet)"
      by (cases "Error res") (simp_all add: Let_def)
    from Cons.IH [of ?result ipSet] Cons.prems show ?thesis
      unfolding step by auto
  qed
qed

lemma collect_no_addresses:
  assumes "qtype \<noteq> TypeA" "qtype \<noteq> TypeAAAA"
  shows "AllIPs (fst (collect ParseIP qtype rs (result, ipSet))) = AllIPs result"
proof -
  have "collectIPs ParseIP qtype records st = st" for records st
    using assms by (induction records) (cases st; simp)+
  then show ?thesis
    by (induction rs arbitrary: result ipSet) (simp_all add: Let_def)
qed

section \<open>The result channel\<close>

lemma resultChan_length:
  "length (concat (map (\<lambda>s. case s of Returns res \<Rightarrow> [res] | _ \<Rightarrow> []) sent)) \<le> length sent"
  by (induction sent) (auto split: exec.splits)

lemma resultChan_full:
  assumes "length sent \<le> length (concat (map (\<lambda>s. case s of Returns res \<Rightarrow> [res] | _ \<Rightarrow> []) sent))"
  shows "map Returns (concat (map (\<lambda>s. case s of Returns res \<Rightarrow> [res] | _ \<Rightarrow> []) sent)) = sent"
  using assms
proof (induction sent)
  case Nil
  then show ?case by simp
next
  case (Cons s sent)
  then show ?case
    using resultChan_length [of sent] by (cases s) auto
qed

lemma resultChan_Returns:
  assumes "\<forall>s \<in> set sent. \<exists>res. s = Returns res"
  shows "length (concat (map (\<lambda>s. case s of Returns res \<Rightarrow> [res] | _ \<Rightarrow> []) sent)) = length sent"
  using assms by (induction sent) auto

lemma arrival_length:
  assumes "distinct arrival" "set arrival \<subseteq> {..<n}"
  shows "length arrival \<le> n"
proof -
  have "length arrival = card (set arrival)"
    using assms(1) by (simp add: distinct_card)
  also have "\<dots> \<le> card {..<n}"
    using assms(2) by (intro card_mono) simp_all
  finally show ?thesis by simp
qed

section \<open>Multi-server queries\<close>

lemma MultiQuery_Returns:
  assumes ret: "snd (MultiQuery c ParseIP envs arrival domain qtype) = Returns (res, err)"
    and servers: "Servers c \<noteq> []"
  shows "err = None
    \<and> length (Servers c) \<le> length (concat (map (\<lambda>s. case s of Returns res \<Rightarrow> [res] | _ \<Rightarrow> [])
          (map (\<lambda>j. goroutine c (envs j) domain qtype (Servers c ! j)) arrival)))
    \<and> res = Some (fst (collect ParseIP qtype
          (take (length (Servers c)) (concat (map (\<lambda>s. case s of Returns res \<Rightarrow> [res] | _ \<Rightarrow> [])
            (map (\<lambda>j. goroutine c (envs j) domain qtype (Servers c ! j)) arrival))))
          (\<lparr>Domain = domain, Type = qtype, Results = [], AllIPs = []\<rparr>, Map.empty)))"
  using ret servers by (auto simp del: map_map simp add: MultiQuery_def Let_def split: if_splits)

lemma MultiQuery_Some_servers:
  "snd (MultiQuery c ParseIP envs arrival domain qtype) = Returns (Some r, err) \<Longrightarrow> Servers c \<noteq> []"
  by (auto simp: MultiQuery_def)

lemma Results_as_sent:
  assumes ret: "snd (MultiQuery c ParseIP envs arrival domain qtype) = Returns (Some r, err)"
    and servers: "Servers c \<noteq> []"
    and arrival: "distinct arrival" "set arrival \<subseteq> {..<length (Servers c)}"
  shows "map Returns (Results r) =
    map (\<lambda>j. goroutine c (envs j) domain qtype (Servers c ! j)) arrival"
proof -
  let ?sent = "map (\<lambda>j. goroutine c (envs j) domain qtype (Servers c ! j)) arrival"
  let ?chan = "concat (map (\<lambda>s. case s of Returns res \<Rightarrow> [res] | _ \<Rightarrow> []) ?sent)"
  from MultiQuery_Returns [OF ret servers]
  have full: "length (Servers c) \<le> length ?chan"
    and r: "r = fst (collect ParseIP qtype (take (length (Servers c)) ?chan)
      (\<lparr>Domain = domain, Type = qtype, Results = [], AllIPs = []\<rparr>, Map.empty))"
    by (simp_all del: map_map)
  have "length ?chan \<le> length ?sent"
    by (rule resultChan_length)
  moreover have "length ?sent \<le> length (Servers c)"
    using arrival_length [OF arrival] by simp
  ultimately have len: "length ?chan = length (Servers c)" "length ?sent \<le> length ?chan"
    using full by linarith+
  have "Results r = ?chan"
    by (simp del: map_map add: r collect_Results len(1))
  then show ?thesis
    using resultChan_full [OF len(2)] by (simp del: map_map)
qed

lemma MultiQuery_exists:
  assumes servers: "Servers c \<noteq> []" and R: "0 \<le> Retries c"
    and arrival: "distinct arrival" "set arrival = {..<length (Servers c)}"
  shows "\<exists>r. MultiQuery c ParseIP envs arrival domain qtype = (Servers c, Returns (Some r, None))"
proof -
  let ?sent = "map (\<lambda>j. goroutine c (envs j) domain qtype (Servers c ! j)) arrival"
  let ?chan = "concat (map (\<lambda>s. case s of Returns res \<Rightarrow> [res] | _ \<Rightarrow> []) ?sent)"
  have all: "\<forall>s \<in> set ?sent. \<exists>res. s = Returns res"
    using goroutine_returns [OF R] by auto
  then have "Panics \<notin> set ?sent"
    by auto
  moreover have "length ?chan = length ?sent"
    using all by (rule resultChan_Returns)
  moreover have "length arrival = length (Servers c)"
    using arrival by (metis card_lessThan distinct_card)
  ultimately show ?thesis
    using servers by (simp del: map_map add: MultiQuery_def Let_def)
qed

lemma goroutine_answering:
  "goroutine (config (New [WithServers servers])) (answering_from 0 quiet_env) ''example.com'' TypeA srv
    = Returns (example_success srv)"
  by (simp add: goroutine_def queryServer_def queryUDPTCP_def queryUDPTCP_loop.simps
      udptcp_attempt_def New_def WithServers_def defaultConfig_def UDP_def TCP_def NoProxy_def
      answering_from_def quiet_env_def example_success_def example_answer_def example_query_def
      answerRecord_def Let_def)

lemma goroutine_quiet:
  "goroutine (config (New [WithServers servers])) quiet_env ''example.com'' TypeA srv
    = Returns (example_failure srv)"
  by (simp add: goroutine_def queryServer_def queryUDPTCP_def queryUDPTCP_loop.simps
      udptcp_attempt_def New_def WithServers_def defaultConfig_def UDP_def TCP_def NoProxy_def
      quiet_env_def example_failure_def Let_def emit_def)

lemma scenario_A_config:
  "Servers scenario_A = [''8.8.8.8:53'', ''1.1.1.1:53'', ''9.9.9.9:53'']" "Retries scenario_A = 3"
  by (simp_all add: scenario_A_def New_def WithServers_def defaultConfig_def)

lemma scenario_A_run:
  "MultiQuery scenario_A digits_and_dots two_answer [2, 0, 1] ''example.com'' TypeA =
    ([''8.8.8.8:53'', ''1.1.1.1:53'', ''9.9.9.9:53''], Returns (Some scenario_A_result, None))"
proof -
  have s: "Servers (config (New [WithServers servers])) = servers" for servers
    by (simp add: New_def WithServers_def)
  show ?thesis
    unfolding MultiQuery_def scenario_A_def s
    by (simp add: two_answer_def goroutine_answering goroutine_quiet Let_def
        example_success_def example_failure_def digits_and_dots_def scenario_A_result_def)
qed

text \<open>
  Claim C1, as the code has it. The results of a \<^verbatim>\<open>MultiQuery\<close> that returns stand in
  the order in which the per-server queries completed: the \<open>i\<close>-th entry of \<open>Results\<close> is
  what the \<open>i\<close>-th goroutine to finish sent, and names that goroutine's server in its
  \<open>Server\<close> field. Every configured server finished exactly once, so \<open>Results\<close> is a
  rearrangement of the configuration order, one entry per server.
\<close>

theorem MultiQuery_Results_in_arrival_order:
  assumes ret: "snd (MultiQuery c ParseIP envs arrival domain qtype) = Returns (Some r, err)"
    and arrival: "distinct arrival" "set arrival \<subseteq> {..<length (Servers c)}"
  shows "length (Results r) = length (Servers c)
    \<and> set arrival = {..<length (Servers c)}
    \<and> (\<forall>i < length (Servers c).
          Returns (Results r ! i) =
            goroutine c (envs (arrival ! i)) domain qtype (Servers c ! (arrival ! i))
          \<and> Server (Results r ! i) = Servers c ! (arrival ! i))"
proof -
  have servers: "Servers c \<noteq> []"
    using ret by (rule MultiQuery_Some_servers)
  have eq: "map Returns (Results r) =
      map (\<lambda>j. goroutine c (envs j) domain qtype (Servers c ! j)) arrival"
    using ret servers arrival by (rule Results_as_sent)
  from MultiQuery_Returns [OF ret servers]
  have "length (Results r) = length (Servers c)"
    by (simp del: map_map add: collect_Results)
  moreover from this eq have len: "length arrival = length (Servers c)"
    by (metis length_map)
  moreover have "set arrival = {..<length (Servers c)}"
    using arrival len by (simp add: card_subset_eq distinct_card)
  moreover have "Returns (Results r ! i) =
      goroutine c (envs (arrival ! i)) domain qtype (Servers c ! (arrival ! i))
      \<and> Server (Results r ! i) = Servers c ! (arrival ! i)" if "i < length (Servers c)" for i
  proof -
    have "map Returns (Results r) ! i =
        map (\<lambda>j. goroutine c (envs j) domain qtype (Servers c ! j)) arrival ! i"
      by (simp only: eq)
    then have *: "Returns (Results r ! i) =
        goroutine c (envs (arrival ! i)) domain qtype (Servers c ! (arrival ! i))"
      using that len \<open>length (Results r) = length (Servers c)\<close> by simp
    with goroutine_fields [OF * [symmetric]] show ?thesis
      by simp
  qed
  ultimately show ?thesis
    by blast
qed

text \<open>
  In scenario A the third server's result arrives first and is the first entry.
\<close>

theorem MultiQuery_Results_in_arrival_order_witness:
  "snd (MultiQuery scenario_A digits_and_dots two_answer [2, 0, 1] ''example.com'' TypeA) =
      Returns (Some scenario_A_result, None)
   \<and> length (Results scenario_A_result) = 3
   \<and> Server (Results scenario_A_result ! 0) = ''9.9.9.9:53''
   \<and> Server (Results scenario_A_result ! 1) = ''8.8.8.8:53''
   \<and> Server (Results scenario_A_result ! 2) = ''1.1.1.1:53''"
proof -
  have ret: "snd (MultiQuery scenario_A digits_and_dots two_answer [2, 0, 1] ''example.com'' TypeA) =
      Returns (Some scenario_A_result, None)"
    by (simp only: scenario_A_run snd_conv)
  have arrival: "distinct [2, 0, 1::nat]" "set [2, 0, 1::nat] \<subseteq> {..<length (Servers scenario_A)}"
    by (simp_all add: scenario_A_config)
  from MultiQuery_Results_in_arrival_order [OF ret arrival] ret show ?thesis
    by (simp add: scenario_A_config)
qed

text \<open>
  Claim C1 as stated (the \<open>i\<close>-th entry belongs to the \<open>i\<close>-th configured server,
  whatever the order of completion) fails: with two servers that both answer, the second
  finishing first, the first entry of \<open>Results\<close> is the second server's.
\<close>

theorem Results_not_in_configuration_order:
  "Servers (config (New [WithServers [''8.8.8.8:53'', ''1.1.1.1:53'']])) =
      [''8.8.8.8:53'', ''1.1.1.1:53'']
   \<and> snd (MultiQuery (config (New [WithServers [''8.8.8.8:53'', ''1.1.1.1:53'']])) digits_and_dots
        (\<lambda>j. answering_from 0 quiet_env) [1, 0] ''example.com'' TypeA) =
      Returns (Some \<lparr>Domain = ''example.com'', Type = TypeA,
                      Results = [example_success ''1.1.1.1:53'', example_success ''8.8.8.8:53''],
                      AllIPs = [''93.184.216.34'']\<rparr>, None)
   \<and> Server (example_success ''1.1.1.1:53'') \<noteq> ''8.8.8.8:53''"
proof -
  have s: "Servers (config (New [WithServers servers])) = servers" for servers
    by (simp add: New_def WithServers_def)
  show ?thesis
    unfolding MultiQuery_def s
    by (simp add: goroutine_answering Let_def example_success_def digits_and_dots_def)
qed

text \<open>
  For a configuration with at least one server, the \<open>Results\<close> of every
  \<^verbatim>\<open>MultiQuery\<close> that returns hold exactly as many entries as servers are configured,
  however many of the queries failed. When the retry count is at least 0 and every
  goroutine finishes, the call does return, and its results are, one for one, what the
  goroutines sent. A goroutine whose query fails with an error sends a result that
  carries domain, type, server and that error, and no records.
\<close>

theorem MultiQuery_one_result_per_server:
  assumes servers: "Servers c \<noteq> []"
  shows "(\<forall>r err. snd (MultiQuery c ParseIP envs arrival domain qtype) = Returns (Some r, err) \<longrightarrow>
            length (Results r) = length (Servers c))
    \<and> (0 \<le> Retries c \<and> distinct arrival \<and> set arrival = {..<length (Servers c)} \<longrightarrow>
          (\<exists>r. snd (MultiQuery c ParseIP envs arrival domain qtype) = Returns (Some r, None)
             \<and> length (Results r) = length (Servers c)
             \<and> map Returns (Results r) =
                 map (\<lambda>j. goroutine c (envs j) domain qtype (Servers c ! j)) arrival))
    \<and> (\<forall>e srv res err. snd (queryServer c e domain qtype srv) = Returns (res, Some err) \<longrightarrow>
          goroutine c e domain qtype srv =
            Returns \<lparr>QueryResult.Domain = domain, QueryResult.Type = qtype, Records = [],
                     Error = Some err, Server = srv\<rparr>)"
proof (intro conjI allI impI)
  fix r err
  assume ret: "snd (MultiQuery c ParseIP envs arrival domain qtype) = Returns (Some r, err)"
  from MultiQuery_Returns [OF ret servers]
  show "length (Results r) = length (Servers c)"
    by (simp del: map_map add: collect_Results)
next
  assume a: "0 \<le> Retries c \<and> distinct arrival \<and> set arrival = {..<length (Servers c)}"
  then obtain r where
    r: "MultiQuery c ParseIP envs arrival domain qtype = (Servers c, Returns (Some r, None))"
    using MultiQuery_exists [OF servers, of arrival ParseIP envs domain qtype] by blast
  then have ret: "snd (MultiQuery c ParseIP envs arrival domain qtype) = Returns (Some r, None)"
    by simp
  from MultiQuery_Returns [OF ret servers]
  have "length (Results r) = length (Servers c)"
    by (simp del: map_map add: collect_Results)
  moreover have "map Returns (Results r) =
      map (\<lambda>j. goroutine c (envs j) domain qtype (Servers c ! j)) arrival"
    using ret servers a by (intro Results_as_sent) auto
  ultimately show "\<exists>r. snd (MultiQuery c ParseIP envs arrival domain qtype) = Returns (Some r, None)
      \<and> length (Results r) = length (Servers c)
      \<and> map Returns (Results r) =
          map (\<lambda>j. goroutine c (envs j) domain qtype (Servers c ! j)) arrival"
    using ret by blast
next
  fix e srv res err
  assume "snd (queryServer c e domain qtype srv) = Returns (res, Some err)"
  then show "goroutine c e domain qtype srv =
      Returns \<lparr>QueryResult.Domain = domain, QueryResult.Type = qtype, Records = [],
               Error = Some err, Server = srv\<rparr>"
    by (rule goroutine_substitutes)
qed

text \<open>
  Scenario A: three servers, three results; the query of the silent server fails, and
  its goroutine sends the result that carries the error.
\<close>

theorem MultiQuery_one_result_per_server_witness:
  "snd (MultiQuery scenario_A digits_and_dots two_answer [2, 0, 1] ''example.com'' TypeA) =
      Returns (Some scenario_A_result, None)
   \<and> length (Results scenario_A_result) = length (Servers scenario_A)
   \<and> snd (queryServer scenario_A quiet_env ''example.com'' TypeA ''9.9.9.9:53'') =
      Returns (Some (example_failure ''9.9.9.9:53''), Some (errorString ''i/o timeout, attempt 3''))
   \<and> goroutine scenario_A quiet_env ''example.com'' TypeA ''9.9.9.9:53'' =
      Returns (example_failure ''9.9.9.9:53'')"
proof -
  have servers: "Servers scenario_A \<noteq> []"
    by (simp add: scenario_A_config)
  have ret: "snd (MultiQuery scenario_A digits_and_dots two_answer [2, 0, 1] ''example.com'' TypeA) =
      Returns (Some scenario_A_result, None)"
    by (simp only: scenario_A_run snd_conv)
  have fails: "snd (queryServer scenario_A quiet_env ''example.com'' TypeA ''9.9.9.9:53'') =
      Returns (Some (example_failure ''9.9.9.9:53''), Some (errorString ''i/o timeout, attempt 3''))"
    by (simp add: queryServer_def queryUDPTCP_def queryUDPTCP_loop.simps
      udptcp_attempt_def scenario_A_def New_def WithServers_def defaultConfig_def UDP_def TCP_def
      NoProxy_def quiet_env_def example_failure_def Let_def emit_def)
  note inst = MultiQuery_one_result_per_server [OF servers, of digits_and_dots two_answer "[2, 0, 1]"
      "''example.com''" TypeA]
  from inst [THEN conjunct1, THEN spec, THEN spec, THEN mp, OF ret]
    inst [THEN conjunct2, THEN conjunct2, THEN spec, THEN spec, THEN spec, THEN spec, THEN mp, OF fails]
    ret fails
  show ?thesis
    by (simp add: example_failure_def)
qed

text \<open>
  Claim C3. With a negative retry count the loop of the transport never runs, and the
  transport returns neither a response nor an error; \<^verbatim>\<open>queryServer\<close> then reads the
  answers of a nil response. So for one server and the retry count -1 the goroutine
  panics and sends no result, and \<^verbatim>\<open>MultiQuery\<close> returns no \<open>Results\<close> at all.
\<close>

theorem MultiQuery_negative_retries_no_result:
  "goroutine (config (New [WithServers [''8.8.8.8:53''], WithRetries (- 1)])) quiet_env
      ''example.com'' TypeA ''8.8.8.8:53'' = Panics
   \<and> MultiQuery (config (New [WithServers [''8.8.8.8:53''], WithRetries (- 1)])) digits_and_dots
        (\<lambda>j. quiet_env) [0] ''example.com'' TypeA = ([''8.8.8.8:53''], Panics)"
proof -
  let ?c = "config (New [WithServers [''8.8.8.8:53''], WithRetries (- 1)])"
  have c: "Servers ?c = [''8.8.8.8:53'']" "Retries ?c = - 1" "Protocol ?c = UDP"
    by (simp_all add: New_def WithServers_def WithRetries_def defaultConfig_def)
  have g: "goroutine ?c quiet_env ''example.com'' TypeA ''8.8.8.8:53'' = Panics"
    by (simp add: goroutine_def queryServer_def queryUDPTCP_def queryUDPTCP_loop.simps c Let_def)
  show ?thesis
    unfolding MultiQuery_def c by (simp add: g Let_def)
qed

text \<open>
  Claim C4. In the result of every \<^verbatim>\<open>MultiQuery\<close> that returns, \<open>AllIPs\<close> holds no
  address twice, and each of its entries is the \<open>Value\<close> of a record of one of the
  \<open>Results\<close> whose \<open>Error\<close> is nil, is accepted by \<^verbatim>\<open>net.ParseIP\<close>, and stems from a
  query of type A or AAAA. For every other query type \<open>AllIPs\<close> is empty.
\<close>

theorem MultiQuery_AllIPs:
  assumes ret: "snd (MultiQuery c ParseIP envs arrival domain qtype) = Returns (Some r, err)"
  shows "distinct (AllIPs r)
    \<and> (\<forall>ip \<in> set (AllIPs r).
          (qtype = TypeA \<or> qtype = TypeAAAA) \<and> ParseIP ip
          \<and> (\<exists>res \<in> set (Results r). Error res = None \<and> (\<exists>rec \<in> set (Records res). Value rec = ip)))
    \<and> (qtype \<noteq> TypeA \<and> qtype \<noteq> TypeAAAA \<longrightarrow> AllIPs r = [])"
proof -
  let ?sent = "map (\<lambda>j. goroutine c (envs j) domain qtype (Servers c ! j)) arrival"
  let ?chan = "concat (map (\<lambda>s. case s of Returns res \<Rightarrow> [res] | _ \<Rightarrow> []) ?sent)"
  let ?rs = "take (length (Servers c)) ?chan"
  let ?init = "\<lparr>Domain = domain, Type = qtype, Results = [], AllIPs = []\<rparr>"
  have servers: "Servers c \<noteq> []"
    using ret by (rule MultiQuery_Some_servers)
  from MultiQuery_Returns [OF ret servers]
  have r: "r = fst (collect ParseIP qtype ?rs (?init, Map.empty))"
    by (simp del: map_map)
  have results: "Results r = ?rs"
    unfolding r by (simp del: map_map add: collect_Results)
  from collect_invariant [of ?init Map.empty ParseIP qtype ?rs]
  have inv: "distinct (AllIPs r)"
    "set (AllIPs r) \<subseteq> {ip. (qtype = TypeA \<or> qtype = TypeAAAA) \<and> ParseIP ip
          \<and> (\<exists>res \<in> set ?rs. Error res = None \<and> ip \<in> Value ` set (Records res))}"
    unfolding r by (simp_all del: map_map)
  have "AllIPs r = []" if "qtype \<noteq> TypeA" "qtype \<noteq> TypeAAAA"
    unfolding r using collect_no_addresses [OF that, of ParseIP ?rs ?init Map.empty]
    by (simp del: map_map)
  moreover have "(qtype = TypeA \<or> qtype = TypeAAAA) \<and> ParseIP ip
      \<and> (\<exists>res \<in> set (Results r). Error res = None \<and> (\<exists>rec \<in> set (Records res). Value rec = ip))"
    if "ip \<in> set (AllIPs r)" for ip
    using inv(2) that unfolding results by blast
  ultimately show ?thesis
    using inv(1) by blast
qed

text \<open>
  Scenario A: two servers return the same address, which \<open>AllIPs\<close> holds once.
\<close>

theorem MultiQuery_AllIPs_witness:
  "snd (MultiQuery scenario_A digits_and_dots two_answer [2, 0, 1] ''example.com'' TypeA) =
      Returns (Some scenario_A_result, None)
   \<and> distinct (AllIPs scenario_A_result)
   \<and> AllIPs scenario_A_result = [''93.184.216.34'']
   \<and> digits_and_dots ''93.184.216.34''
   \<and> Value (hd (Records (Results scenario_A_result ! 1))) = ''93.184.216.34''
   \<and> Error (Results scenario_A_result ! 1) = None"
proof -
  have ret: "snd (MultiQuery scenario_A digits_and_dots two_answer [2, 0, 1] ''example.com'' TypeA) =
      Returns (Some scenario_A_result, None)"
    by (simp only: scenario_A_run snd_conv)
  from MultiQuery_AllIPs [OF ret] ret show ?thesis
    by (simp add: scenario_A_result_def example_success_def example_failure_def)
qed

text \<open>
  With no server configured, \<^verbatim>\<open>MultiQuery\<close> returns the error
  \<^verbatim>\<open>no DNS servers configured\<close> and no result, and has started no goroutine. Whenever
  \<^verbatim>\<open>MultiQuery\<close> returns, its error is non-nil if and only if the server list is
  empty. With at least one server, a retry count of at least 0 and every goroutine
  finishing, it returns a nil error and a result with one entry per server, and the
  \<open>Error\<close> of each entry is the error the query of that entry's server returned: nil
  for a query that succeeded, its own error for one that failed, also when all failed.
\<close>

theorem MultiQuery_error_iff_no_servers:
  "(Servers c = [] \<longrightarrow>
      MultiQuery c ParseIP envs arrival domain qtype =
        ([], Returns (None, Some (errorString ''no DNS servers configured''))))
   \<and> (\<forall>res err. snd (MultiQuery c ParseIP envs arrival domain qtype) = Returns (res, err) \<longrightarrow>
         (err \<noteq> None \<longleftrightarrow> Servers c = []))
   \<and> (Servers c \<noteq> [] \<and> 0 \<le> Retries c \<and> distinct arrival
        \<and> set arrival = {..<length (Servers c)} \<longrightarrow>
         (\<exists>r. MultiQuery c ParseIP envs arrival domain qtype = (Servers c, Returns (Some r, None))
            \<and> length (Results r) = length (Servers c)
            \<and> (\<forall>i < length (Servers c). \<exists>res.
                  snd (queryServer c (envs (arrival ! i)) domain qtype (Servers c ! (arrival ! i)))
                    = Returns (res, Error (Results r ! i)))))"
proof (intro conjI allI impI)
  assume "Servers c = []"
  then show "MultiQuery c ParseIP envs arrival domain qtype =
      ([], Returns (None, Some (errorString ''no DNS servers configured'')))"
    by (simp add: MultiQuery_def)
next
  fix res err
  assume ret: "snd (MultiQuery c ParseIP envs arrival domain qtype) = Returns (res, err)"
  show "err \<noteq> None \<longleftrightarrow> Servers c = []"
  proof (cases "Servers c = []")
    case True
    with ret show ?thesis by (auto simp: MultiQuery_def)
  next
    case False
    with MultiQuery_Returns [OF ret False] show ?thesis by simp
  qed
next
  assume a: "Servers c \<noteq> [] \<and> 0 \<le> Retries c \<and> distinct arrival
      \<and> set arrival = {..<length (Servers c)}"
  then obtain r where
    r: "MultiQuery c ParseIP envs arrival domain qtype = (Servers c, Returns (Some r, None))"
    using MultiQuery_exists [of c arrival ParseIP envs domain qtype] by blast
  then have ret: "snd (MultiQuery c ParseIP envs arrival domain qtype) = Returns (Some r, None)"
    by simp
  have servers: "Servers c \<noteq> []"
    using a by simp
  from MultiQuery_Returns [OF ret servers]
  have len: "length (Results r) = length (Servers c)"
    by (simp del: map_map add: collect_Results)
  have eq: "map Returns (Results r) =
      map (\<lambda>j. goroutine c (envs j) domain qtype (Servers c ! j)) arrival"
    using ret servers a by (intro Results_as_sent) auto
  then have alen: "length arrival = length (Servers c)"
    using len by (metis length_map)
  have "\<exists>res. snd (queryServer c (envs (arrival ! i)) domain qtype (Servers c ! (arrival ! i)))
      = Returns (res, Error (Results r ! i))" if "i < length (Servers c)" for i
  proof -
    have "map Returns (Results r) ! i =
        map (\<lambda>j. goroutine c (envs j) domain qtype (Servers c ! j)) arrival ! i"
      by (simp only: eq)
    then have "goroutine c (envs (arrival ! i)) domain qtype (Servers c ! (arrival ! i)) =
        Returns (Results r ! i)"
      using that len alen by simp
    then show ?thesis
      by (rule goroutine_Error)
  qed
  with r len show "\<exists>r. MultiQuery c ParseIP envs arrival domain qtype =
        (Servers c, Returns (Some r, None))
      \<and> length (Results r) = length (Servers c)
      \<and> (\<forall>i < length (Servers c). \<exists>res.
            snd (queryServer c (envs (arrival ! i)) domain qtype (Servers c ! (arrival ! i)))
              = Returns (res, Error (Results r ! i)))"
    by blast
qed

text \<open>
  An empty server list gives the error at once. Scenario A returns no error, and neither
  does the same configuration when none of the three servers answers: each of the three
  entries then carries its error.
\<close>

theorem MultiQuery_error_iff_no_servers_witness:
  "MultiQuery (config (New [WithServers []])) digits_and_dots two_answer [] ''example.com'' TypeA =
      ([], Returns (None, Some (errorString ''no DNS servers configured'')))
   \<and> snd (MultiQuery scenario_A digits_and_dots two_answer [2, 0, 1] ''example.com'' TypeA) =
      Returns (Some scenario_A_result, None)
   \<and> Servers scenario_A \<noteq> []
   \<and> MultiQuery scenario_A digits_and_dots (\<lambda>j. quiet_env) [0, 1, 2] ''example.com'' TypeA =
      ([''8.8.8.8:53'', ''1.1.1.1:53'', ''9.9.9.9:53''],
       Returns (Some \<lparr>Domain = ''example.com'', Type = TypeA,
                       Results = [example_failure ''8.8.8.8:53'', example_failure ''1.1.1.1:53'',
                                  example_failure ''9.9.9.9:53''],
                       AllIPs = []\<rparr>, None))"
proof -
  have none: "Servers (config (New [WithServers []])) = []"
    by (simp add: New_def WithServers_def)
  have ret: "snd (MultiQuery scenario_A digits_and_dots two_answer [2, 0, 1] ''example.com'' TypeA) =
      Returns (Some scenario_A_result, None)"
    by (simp only: scenario_A_run snd_conv)
  have s: "Servers (config (New [WithServers servers])) = servers" for servers
    by (simp add: New_def WithServers_def)
  have all_fail:
    "MultiQuery scenario_A digits_and_dots (\<lambda>j. quiet_env) [0, 1, 2] ''example.com'' TypeA =
      ([''8.8.8.8:53'', ''1.1.1.1:53'', ''9.9.9.9:53''],
       Returns (Some \<lparr>Domain = ''example.com'', Type = TypeA,
                       Results = [example_failure ''8.8.8.8:53'', example_failure ''1.1.1.1:53'',
                                  example_failure ''9.9.9.9:53''],
                       AllIPs = []\<rparr>, None))"
    unfolding MultiQuery_def scenario_A_def s
    by (simp add: goroutine_quiet Let_def example_failure_def)
  note inst = MultiQuery_error_iff_no_servers
  from inst [of "config (New [WithServers []])" digits_and_dots two_answer "[]" "''example.com''" TypeA,
      THEN conjunct1, THEN mp, OF none]
    inst [of scenario_A digits_and_dots two_answer "[2, 0, 1]" "''example.com''" TypeA,
      THEN conjunct2, THEN conjunct1, THEN spec, THEN spec, THEN mp, OF ret]
    ret all_fail
  show ?thesis
    by simp
qed

text \<open>
  Claim C7. With the retry count -1 and the default servers the server list is not empty,
  the UDP/TCP query returns no response and no error, the single-server query panics on
  the nil response, and \<^verbatim>\<open>MultiQuery\<close> panics with it: it returns neither a nil error
  nor a result.
\<close>

theorem MultiQuery_negative_retries_panics:
  "Servers (config (New [WithRetries (- 1)])) \<noteq> []
   \<and> queryUDPTCP (config (New [WithRetries (- 1)])) quiet_env example_query ''223.5.5.5:53'' =
        ([], None, None)
   \<and> snd (queryServer (config (New [WithRetries (- 1)])) quiet_env ''example.com'' TypeA
        ''223.5.5.5:53'') = Panics
   \<and> snd (MultiQuery (config (New [WithRetries (- 1)])) digits_and_dots (\<lambda>j. quiet_env)
        [0, 1, 2, 3, 4, 5, 6, 7, 8, 9] ''example.com'' TypeA) = Panics"
proof -
  let ?c = "config (New [WithRetries (- 1)])"
  have c: "Servers ?c = UDPServers" "Retries ?c = - 1" "Protocol ?c = UDP"
    by (simp_all add: New_def WithRetries_def defaultConfig_def)
  have q: "queryUDPTCP ?c quiet_env msg server = ([], None, None)" for msg server
    by (simp add: queryUDPTCP_def queryUDPTCP_loop.simps c)
  have s: "snd (queryServer ?c quiet_env domain qtype server) = Panics" for domain qtype server
    by (simp add: queryServer_def q c Let_def)
  have g: "goroutine ?c quiet_env domain qtype server = Panics" for domain qtype server
    by (simp add: goroutine_def s)
  show ?thesis
    unfolding MultiQuery_def c by (simp add: q s g Let_def UDPServers_def)
qed

end
